theory Spec2Isabelle
  imports Main
begin

section \<open>Text helpers\<close>

text \<open>
  Python strings are modelled as \<open>string\<close>. A character of the model is a code point below
  U+0100, so the texts of the model are the Python strings over U+0000 to U+00FF; the SQL
  texts and messages of this program are ASCII. On these texts the character classes and
  the case folding below are those of Python: beyond U+00FF Python folds four more code
  points onto ASCII letters (U+0130 and U+0131 onto \<open>i\<close>, U+017F onto \<open>s\<close>, U+212A onto \<open>k\<close>)
  and knows more blanks and word characters, which the texts of the model do not contain.
  The helpers are the string operations the source uses: \<open>str.lower\<close>, \<open>str.upper\<close>, the
  substring test \<open>sub in s\<close>, \<open>str.rstrip(';')\<close>, \<open>', '.join\<close> and the decimal rendering of a
  non-negative integer in an f-string. \<open>lower\<close> and \<open>upper\<close> change the ASCII letters; Python
  maps the other characters below U+0100 to characters that are no ASCII letters (and
  \<open>upper\<close> maps U+00DF to \<open>SS\<close>), which does not change where an ASCII word occurs in the
  folded text.
\<close>

definition apos :: char where
  "apos = CHR 0x27"

definition bslash :: char where
  "bslash = CHR 0x5C"

definition newline :: char where
  "newline = CHR 0x0A"

definition upper_letters :: string where
  "upper_letters = ''ABCDEFGHIJKLMNOPQRSTUVWXYZ''"

definition lower_letters :: string where
  "lower_letters = ''abcdefghijklmnopqrstuvwxyz''"

definition digits :: string where
  "digits = ''0123456789''"

definition lower_chr :: "char \<Rightarrow> char" where
  "lower_chr c = (case map_of (zip upper_letters lower_letters) c of None \<Rightarrow> c | Some d \<Rightarrow> d)"

definition upper_chr :: "char \<Rightarrow> char" where
  "upper_chr c = (case map_of (zip lower_letters upper_letters) c of None \<Rightarrow> c | Some d \<Rightarrow> d)"

definition lower :: "string \<Rightarrow> string" where
  "lower s = map lower_chr s"

definition upper :: "string \<Rightarrow> string" where
  "upper s = map upper_chr s"

fun starts_with :: "string \<Rightarrow> string \<Rightarrow> bool" where
  "starts_with s [] = True"
| "starts_with [] (c # cs) = False"
| "starts_with (d # ds) (c # cs) = (d = c \<and> starts_with ds cs)"

text \<open>\<open>contains s sub\<close> is Python's \<open>sub in s\<close>.\<close>

fun contains :: "string \<Rightarrow> string \<Rightarrow> bool" where
  "contains [] sub = (sub = [])"
| "contains (c # cs) sub = (starts_with (c # cs) sub \<or> contains cs sub)"

definition rstrip :: "char \<Rightarrow> string \<Rightarrow> string" where
  "rstrip c s = rev (dropWhile (\<lambda>d. d = c) (rev s))"

fun join :: "string \<Rightarrow> string list \<Rightarrow> string" where
  "join sep [] = []"
| "join sep [x] = x"
| "join sep (x # y # ys) = x @ sep @ join sep (y # ys)"

definition digit_chr :: "nat \<Rightarrow> char" where
  "digit_chr d = digits ! d"

fun str_nat :: "nat \<Rightarrow> string" where
  "str_nat n = (if n < 10 then [digit_chr n] else str_nat (n div 10) @ [digit_chr (n mod 10)])"

declare str_nat.simps [simp del]

section \<open>Regular expressions as used by \<open>re.sub\<close>\<close>

text \<open>
  \<open>validate_and_fix_query\<close> is a chain of \<open>re.sub(pattern, replacement, text,
  flags=re.IGNORECASE)\<close> calls. The fragment of Python's backtracking regular expressions
  that its nine patterns use is embedded here: literals compared without regard to case,
  character classes, greedy and lazy repetition of a class, the greedy optional group,
  capturing groups, \<open>\b\<close>, \<open>$\<close> and the two lookaheads.

  A matcher state is the character before the current position (for \<open>\b\<close>), the text
  matched so far inside the innermost open group (last character first), the text still to
  be read, and the groups captured so far. \<open>ms r st\<close> lists every way \<open>r\<close> can match at
  \<open>st\<close>, in the order in which the backtracking matcher tries them, so the head of the list
  is the match Python reports.
\<close>

text \<open>\<open>\s\<close> and \<open>\w\<close> of a \<open>str\<close> pattern, on the code points below U+0100: the blanks are the
  ASCII blanks, U+001C to U+001F, U+0085 and U+00A0; the word characters are the ASCII
  letters and digits, the underscore, and the Latin-1 letters and numerals.\<close>

definition is_space :: "char \<Rightarrow> bool" where
  "is_space c = (c \<in> set [CHR 0x09, CHR 0x0A, CHR 0x0B, CHR 0x0C, CHR 0x0D,
                             CHR 0x1C, CHR 0x1D, CHR 0x1E, CHR 0x1F, CHR 0x20,
                             CHR 0x85, CHR 0xA0])"

definition latin1_word_chars :: string where
  "latin1_word_chars =
     [CHR 0xAA, CHR 0xB2, CHR 0xB3, CHR 0xB5, CHR 0xB9, CHR 0xBA, CHR 0xBC, CHR 0xBD,
      CHR 0xBE, CHR 0xC0, CHR 0xC1, CHR 0xC2, CHR 0xC3, CHR 0xC4, CHR 0xC5, CHR 0xC6,
      CHR 0xC7, CHR 0xC8, CHR 0xC9, CHR 0xCA, CHR 0xCB, CHR 0xCC, CHR 0xCD, CHR 0xCE,
      CHR 0xCF, CHR 0xD0, CHR 0xD1, CHR 0xD2, CHR 0xD3, CHR 0xD4, CHR 0xD5, CHR 0xD6,
      CHR 0xD8, CHR 0xD9, CHR 0xDA, CHR 0xDB, CHR 0xDC, CHR 0xDD, CHR 0xDE, CHR 0xDF,
      CHR 0xE0, CHR 0xE1, CHR 0xE2, CHR 0xE3, CHR 0xE4, CHR 0xE5, CHR 0xE6, CHR 0xE7,
      CHR 0xE8, CHR 0xE9, CHR 0xEA, CHR 0xEB, CHR 0xEC, CHR 0xED, CHR 0xEE, CHR 0xEF,
      CHR 0xF0, CHR 0xF1, CHR 0xF2, CHR 0xF3, CHR 0xF4, CHR 0xF5, CHR 0xF6, CHR 0xF8,
      CHR 0xF9, CHR 0xFA, CHR 0xFB, CHR 0xFC, CHR 0xFD, CHR 0xFE, CHR 0xFF]"

definition is_word :: "char \<Rightarrow> bool" where
  "is_word c = (c \<in> set (upper_letters @ lower_letters @ digits @ ''_'' @ latin1_word_chars))"

datatype re =
    Eps
  | Lit string
  | Many "char \<Rightarrow> bool" nat
  | Few "char \<Rightarrow> bool" nat
  | One "char \<Rightarrow> bool"
  | Seq re re
  | Alt re re
  | Opt re
  | Group nat re
  | Wordb
  | Eos
  | Ahead re
  | NotAhead re

type_synonym mstate = "char option \<times> string \<times> string \<times> (nat \<times> string) list"

definition word_before :: "char option \<Rightarrow> bool" where
  "word_before p = (case p of None \<Rightarrow> False | Some c \<Rightarrow> is_word c)"

definition word_after :: "string \<Rightarrow> bool" where
  "word_after r = (case r of [] \<Rightarrow> False | c # cs \<Rightarrow> is_word c)"

text \<open>A literal at the front of the text, letter case ignored.\<close>

fun lit_ci :: "string \<Rightarrow> mstate \<Rightarrow> mstate list" where
  "lit_ci [] st = [st]"
| "lit_ci (d # ds) (p, a, [], g) = []"
| "lit_ci (d # ds) (p, a, c # cs, g) =
     (if lower_chr c = lower_chr d then lit_ci ds (Some c, c # a, cs, g) else [])"

text \<open>The states after 0, 1, 2, ... characters of the longest run of class characters.\<close>

fun spans :: "(char \<Rightarrow> bool) \<Rightarrow> mstate \<Rightarrow> mstate list" where
  "spans P (p, a, [], g) = [(p, a, [], g)]"
| "spans P (p, a, c # cs, g) =
     (p, a, c # cs, g) # (if P c then spans P (Some c, c # a, cs, g) else [])"

fun ms :: "re \<Rightarrow> mstate \<Rightarrow> mstate list" where
  "ms Eps st = [st]"
| "ms (Lit w) st = lit_ci w st"
| "ms (One P) (p, a, r, g) =
     (case r of [] \<Rightarrow> [] | c # cs \<Rightarrow> if P c then [(Some c, c # a, cs, g)] else [])"
| "ms (Many P n) st = rev (drop n (spans P st))"
| "ms (Few P n) st = drop n (spans P st)"
| "ms (Seq x y) st = concat (map (ms y) (ms x st))"
| "ms (Alt x y) st = ms x st @ ms y st"
| "ms (Opt x) st = ms x st @ [st]"
| "ms (Group i x) (p, a, r, g) =
     map (\<lambda>(p', a', r', g'). (p', a' @ a, r', (i, rev a') # g')) (ms x (p, [], r, g))"
| "ms Wordb (p, a, r, g) = (if word_before p \<noteq> word_after r then [(p, a, r, g)] else [])"
| "ms Eos (p, a, r, g) = (if r = [] \<or> r = [newline] then [(p, a, r, g)] else [])"
| "ms (Ahead x) st = (if ms x st = [] then [] else [st])"
| "ms (NotAhead x) st = (if ms x st = [] then [st] else [])"

text \<open>A replacement template: literal text and group references \<open>\1\<close>, \<open>\2\<close>. A group
  that took no part in the match expands to the empty string.\<close>

datatype titem = Txt string | Ref nat

fun expand :: "titem list \<Rightarrow> (nat \<times> string) list \<Rightarrow> string" where
  "expand [] g = []"
| "expand (Txt w # ts) g = w @ expand ts g"
| "expand (Ref i # ts) g = (case map_of g i of None \<Rightarrow> [] | Some w \<Rightarrow> w) @ expand ts g"

text \<open>
  \<open>re.sub\<close>: scan from the left; at the first position where the pattern matches, emit the
  expanded template and go on after the match; where it does not match, copy one character.
  Every pattern of this program contains a literal, so no match is empty; for an empty match
  the model emits the template, copies one character and moves on.
\<close>

function sub_from :: "re \<Rightarrow> titem list \<Rightarrow> char option \<Rightarrow> string \<Rightarrow> string" where
  "sub_from r t p s =
     (case ms r (p, [], s, []) of
        [] \<Rightarrow> (case s of [] \<Rightarrow> [] | c # cs \<Rightarrow> c # sub_from r t (Some c) cs)
      | (p', a, s', g) # alts \<Rightarrow>
          (if length s' < length s then expand t g @ sub_from r t p' s'
           else (case s of [] \<Rightarrow> expand t g
                 | c # cs \<Rightarrow> expand t g @ c # sub_from r t (Some c) cs)))"
  by pat_completeness auto
termination
  by (relation "measure (\<lambda>(r, t, p, s). length s)") auto

declare sub_from.simps [simp del]

definition re_sub :: "re \<times> titem list \<Rightarrow> string \<Rightarrow> string" where
  "re_sub fix s = sub_from (fst fix) (snd fix) None s"

section \<open>The query repair engine (\<open>database/queries.py\<close>)\<close>

definition quoted :: "string \<Rightarrow> string" where
  "quoted w = [bslash, apos] @ w @ [bslash, apos]"

text \<open>The \<open>CASE\<close> expression of the replacements. The replacement strings are raw strings
  holding \<open>\'\<close>; \<open>re.sub\<close> leaves an escape of a character that is no letter or digit as it
  is, so the backslash stays in the result.\<close>

definition case_expr :: string where
  "case_expr = ''CASE WHEN event_type = '' @ quoted ''SettlementConfirmed'' @ '' THEN ''
     @ quoted ''SUCCESSFUL'' @ '' ELSE '' @ quoted ''FAILED'' @ '' END''"

definition ws1 :: re where
  "ws1 = Many is_space 1"

definition ws0 :: re where
  "ws0 = Many is_space 0"

definition cmp_chr :: "char \<Rightarrow> bool" where
  "cmp_chr c = (c = CHR ''>'' \<or> c = CHR ''<'' \<or> c = CHR ''='')"

definition quote_chr :: "char \<Rightarrow> bool" where
  "quote_chr c = (c = apos \<or> c = CHR 0x22)"

fun seqs :: "re list \<Rightarrow> re" where
  "seqs [] = Eps"
| "seqs [r] = r"
| "seqs (r # r' # rs) = Seq r (seqs (r' # rs))"

definition fix_select_final_status :: "re \<times> titem list" where
  "fix_select_final_status =
     (seqs [Lit ''SELECT'', ws1,
            Opt (Group 1 (seqs [Many (\<lambda>c. c \<noteq> CHR '','') 0, Lit '','', ws0])),
            Lit ''final_status'', Wordb],
      [Txt ''SELECT '', Ref 1, Txt (case_expr @ '' as final_status'')])"

definition fix_where_final_status :: "re \<times> titem list" where
  "fix_where_final_status =
     (seqs [Lit ''WHERE'', ws1, Lit ''final_status'', ws0, Lit ''='', ws0,
            One quote_chr, Group 1 (Many is_word 1), One quote_chr],
      [Txt (''WHERE ('' @ case_expr @ '') = '' @ [bslash, apos]), Ref 1, Txt [bslash, apos]])"

definition fix_order_final_status :: "re \<times> titem list" where
  "fix_order_final_status =
     (seqs [Lit ''ORDER BY'', ws1, Lit ''final_status'', Wordb],
      [Txt (''ORDER BY ('' @ case_expr @ '')'')])"

definition fix_where_success_rate :: "re \<times> titem list" where
  "fix_where_success_rate =
     (seqs [Lit ''WHERE'', ws1, Lit ''success_rate'', ws0, One cmp_chr],
      [Txt ''WHERE (SELECT success_rate FROM transaction_summary)''])"

definition fix_where_count :: "re \<times> titem list" where
  "fix_where_count =
     (seqs [Lit ''WHERE'', ws1, Lit ''count'', ws0, One cmp_chr],
      [Txt ''WHERE transaction_count''])"

definition fix_from_transaction_summary :: "re \<times> titem list" where
  "fix_from_transaction_summary =
     (seqs [Lit ''FROM'', ws1, Lit ''transaction_summary'', Wordb],
      [Txt (''FROM (WITH latest_events AS (SELECT *, ROW_NUMBER() OVER (PARTITION BY ''
        @ ''transaction_id ORDER BY timestamp::timestamptz DESC) as rn FROM transactions) ''
        @ ''SELECT COUNT(*) as total_transactions FROM latest_events WHERE rn = 1) ''
        @ ''as transaction_summary'')])"

definition common_fixes :: "(re \<times> titem list) list" where
  "common_fixes = [fix_select_final_status, fix_where_final_status, fix_order_final_status,
     fix_where_success_rate, fix_where_count, fix_from_transaction_summary]"

definition fix_timestamp_compare :: "re \<times> titem list" where
  "fix_timestamp_compare =
     (seqs [Wordb, Lit ''timestamp'', ws0, Group 1 (Many cmp_chr 1), ws0,
            Group 2 (Few (\<lambda>c. c \<noteq> CHR '':'') 1),
            Ahead (Alt (One is_space) (Alt Eos (Alt (Lit '';'') (Lit '')''))))],
      [Txt ''timestamp::timestamptz '', Ref 1, Txt '' '', Ref 2])"

definition fix_order_timestamp :: "re \<times> titem list" where
  "fix_order_timestamp =
     (seqs [Lit ''ORDER BY'', ws1, Lit ''timestamp'', Wordb, NotAhead (Lit ''::'')],
      [Txt ''ORDER BY timestamp::timestamptz''])"

definition fix_group_timestamp :: "re \<times> titem list" where
  "fix_group_timestamp =
     (seqs [Lit ''GROUP BY'', ws1, Lit ''timestamp'', Wordb, NotAhead (Lit ''::'')],
      [Txt ''GROUP BY timestamp::timestamptz''])"

definition timestamp_fixes :: "(re \<times> titem list) list" where
  "timestamp_fixes = [fix_timestamp_compare, fix_order_timestamp, fix_group_timestamp]"

text \<open>The two \<open>for\<close> loops of \<open>validate_and_fix_query\<close>, each a left fold over its list.\<close>

definition validate_and_fix_query :: "string \<Rightarrow> string" where
  "validate_and_fix_query sql =
     (let fixed_query = sql;
          fixed_query = fold re_sub common_fixes fixed_query;
          fixed_query = fold re_sub timestamp_fixes fixed_query
      in fixed_query)"

text \<open>
  A pattern requires a word when it can only match where the text that is still to be
  read contains that word, letter case ignored. Each of the nine patterns requires one of
  the identifiers \<open>final_status\<close>, \<open>success_rate\<close>, \<open>count\<close>, \<open>transaction_summary\<close> and
  \<open>timestamp\<close>.
\<close>

definition rest_of :: "mstate \<Rightarrow> string" where
  "rest_of st = (case st of (p, a, r, g) \<Rightarrow> r)"




text \<open>
  Every replacement adds weight to the text, where the weight of a text is the number of
  its colons, backslashes, opening parentheses and letters \<open>a\<close> or \<open>A\<close>. The functions
  below bound the weight a pattern can take away: \<open>slack\<close> is the weight of its literals
  outside groups, \<open>tame\<close> says that its character classes outside groups match no weighing
  character, \<open>gidx\<close> lists its groups; \<open>tlits\<close> is the weight of the literal parts of a
  template and \<open>trefs\<close> lists the groups it puts back.
\<close>

definition weighs :: "char \<Rightarrow> bool" where
  "weighs c = (lower_chr c \<in> set [CHR '':'', bslash, CHR ''('', CHR ''a''])"

definition mu :: "string \<Rightarrow> nat" where
  "mu s = length (filter weighs s)"

definition caps :: "(nat \<times> string) list \<Rightarrow> nat" where
  "caps g = sum_list (map (\<lambda>e. mu (snd e)) g)"

definition acc_of :: "mstate \<Rightarrow> string" where
  "acc_of st = (case st of (p, a, r, g) \<Rightarrow> a)"

definition groups_of :: "mstate \<Rightarrow> (nat \<times> string) list" where
  "groups_of st = (case st of (p, a, r, g) \<Rightarrow> g)"







text \<open>\<open>step st st' u new\<close>: from \<open>st\<close> to \<open>st'\<close> the matcher has read \<open>u\<close> and captured \<open>new\<close>.\<close>

definition step :: "mstate \<Rightarrow> mstate \<Rightarrow> string \<Rightarrow> (nat \<times> string) list \<Rightarrow> bool" where
  "step st st' u new = (rest_of st = u @ rest_of st' \<and> acc_of st' = rev u @ acc_of st
     \<and> groups_of st' = new @ groups_of st)"


section \<open>Exceptions and bounded awaiting (\<open>with_timeout\<close>)\<close>

text \<open>
  The exceptions that reach the code under study: FastAPI's \<open>HTTPException\<close> with its status
  code and detail, \<open>asyncio.TimeoutError\<close>, the \<open>UnboundLocalError\<close> of a local variable read
  before it was assigned, and any other \<open>Exception\<close>, given by its message.
\<close>

datatype exn =
    HTTPException nat string
  | TimeoutError
  | UnboundLocalError string
  | Error string

text \<open>\<open>str(e)\<close>; for \<open>HTTPException\<close> it is Starlette's \<open>"{status_code}: {detail}"\<close>.\<close>

fun str_exn :: "exn \<Rightarrow> string" where
  "str_exn (HTTPException code detail) = str_nat code @ '': '' @ detail"
| "str_exn TimeoutError = []"
| "str_exn (UnboundLocalError v) =
     ''cannot access local variable '' @ [apos] @ v @ [apos]
       @ '' where it is not associated with a value''"
| "str_exn (Error msg) = msg"

text \<open>
  An awaitable is given by the time it needs and by how it ends (a value or an exception of
  its own), or it never finishes. Times are counted in ticks of one clock.
  \<open>asyncio.wait_for\<close> hands the outcome through when the awaitable finishes before the
  timeout and raises \<open>TimeoutError\<close> otherwise.
\<close>

datatype 'a coro = Coro nat "exn + 'a" | Never

fun wait_for :: "'a coro \<Rightarrow> nat \<Rightarrow> exn + 'a" where
  "wait_for (Coro d r) timeout = (if d < timeout then r else Inl TimeoutError)"
| "wait_for Never timeout = Inl TimeoutError"

definition with_timeout :: "'a coro \<Rightarrow> nat \<Rightarrow> string \<Rightarrow> exn + 'a" where
  "with_timeout coro timeout_seconds operation_name =
     (case wait_for coro timeout_seconds of
        Inr v \<Rightarrow> Inr v
      | Inl TimeoutError \<Rightarrow>
          Inl (HTTPException 408 (operation_name
                @ '' timed out. Please try a simpler query or check your connection.''))
      | Inl e \<Rightarrow> Inl e)"

section \<open>Data model\<close>

type_synonym row = "(string \<times> string) list"

type_synonym message = string

text \<open>\<open>ChatQueryRequest\<close>.\<close>

record ChatQueryRequest =
  req_query :: string
  req_chat_type :: string
  req_chat_id :: "string option"

text \<open>\<open>DataSummaryResponse\<close>.\<close>

record DataSummaryResponse =
  ds_summary :: string
  ds_key_insights :: "string list"
  ds_recommendation :: "string option"
  ds_transaction_status :: "string option"

text \<open>What an agent run gives back: \<open>result.data\<close> and \<open>result.all_messages()\<close>.\<close>

record query_type_result =
  qt_query_type :: string

record sql_result =
  sr_sql_query :: string
  sr_all_messages :: "message list"

record summary_result =
  su_data :: DataSummaryResponse
  su_all_messages :: "message list"

record response_summary_result =
  rs_summary :: string
  rs_metadata :: string

text \<open>Modelled from the spec: the schema of the bar chart agent's answer is not part of the
  sources at hand; the agent answers \<open>{chart_possible, modified_sql}\<close>. \<open>None\<close> as the
  agent's data stands for a falsy answer.\<close>

record BarChartAnalysis =
  ba_chart_possible :: bool
  ba_modified_sql :: "string option"

text \<open>The dictionary made of the analysis, to which \<open>chart_data\<close> or \<open>chart_data_error\<close> is
  added.\<close>

record bar_chart_dict =
  chart_possible :: bool
  modified_sql :: "string option"
  chart_data :: "row list option"
  chart_data_error :: "string option"

record ChatResponse =
  success :: bool
  chat_id :: string
  query :: string
  sql_query :: string
  data :: "row list"
  summary :: string
  insights :: "string list"
  recommendation :: "string option"
  response_summary :: "string option"
  execution_time_ms :: int
  record_count :: nat
  bar_chart :: "bar_chart_dict option"

section \<open>Collaborators and state\<close>

text \<open>
  Every call to a collaborator is written to a trace; the state also counts the database
  connections that are open. The collaborators (agents, database, chat store, clock) are
  not deterministic, so each answers as a function of the trace so far and of its
  arguments.
\<close>

datatype event =
    CreateNewChat
  | ChatExists string
  | LoadChatMessages string
  | QueryTypeAgentRun string "message list"
  | SqlAgentRun string "message list option"
  | SummaryAgentRun string "message list"
  | BarChartAgentRun string
  | ResponseSummaryAgentRun string
  | Connect
  | Fetch string
  | Close
  | UpdateChatHistory string "message list" string "string option"

record state =
  trace :: "event list"
  open_connections :: nat

definition log :: "event \<Rightarrow> state \<Rightarrow> state" where
  "log e st = st\<lparr>trace := trace st @ [e]\<rparr>"

text \<open>The constants of \<open>config.py\<close>, which is not among the sources at hand, are parameters;
  \<open>TRANSACTION_COLUMNS_json\<close> is \<open>json.dumps(TRANSACTION_COLUMNS, indent=2)\<close>.\<close>

record env =
  AI_AGENT_TIMEOUT :: nat
  DATABASE_TIMEOUT :: nat
  MAX_QUERY_RESULTS :: nat
  TRANSACTION_COLUMNS_json :: string
  json_dumps :: "row list \<Rightarrow> string"
  now :: "event list \<Rightarrow> int"
  create_new_chat :: "event list \<Rightarrow> exn + string"
  chat_exists_in_db :: "event list \<Rightarrow> string \<Rightarrow> exn + bool"
  chat_message_cache :: "event list \<Rightarrow> string set"
  load_chat_messages_from_db :: "event list \<Rightarrow> string \<Rightarrow> exn + message list"
  query_type_agent_run :: "event list \<Rightarrow> string \<Rightarrow> message list \<Rightarrow> query_type_result coro"
  sql_agent_run :: "event list \<Rightarrow> string \<Rightarrow> message list option \<Rightarrow> sql_result coro"
  summary_agent_run :: "event list \<Rightarrow> string \<Rightarrow> message list \<Rightarrow> summary_result coro"
  bar_chart_agent_run :: "event list \<Rightarrow> string \<Rightarrow> BarChartAnalysis option coro"
  response_summary_agent_run :: "event list \<Rightarrow> string \<Rightarrow> response_summary_result coro"
  get_transactions_db_connection :: "event list \<Rightarrow> exn + unit"
  conn_fetch :: "event list \<Rightarrow> string \<Rightarrow> row list coro"

section \<open>Database execution (\<open>execute_query\<close>)\<close>

text \<open>The statement that is sent to the database (lines 60 to 63).\<close>

definition limited_query :: "nat \<Rightarrow> string \<Rightarrow> string" where
  "limited_query max_query_results sql =
     (if \<not> contains (upper sql) ''LIMIT'' \<and> \<not> contains (upper sql) ''COUNT''
      then rstrip (CHR '';'') sql @ '' LIMIT '' @ str_nat max_query_results @ '';''
      else sql)"

definition computed_col_detail :: string where
  "computed_col_detail = ''Query references a computed column from previous conversation. ''
     @ ''Please rephrase your question - I'' @ [apos]
     @ ''ll generate a fresh query with proper column references.''"

text \<open>The \<open>except\<close> clauses of \<open>execute_query\<close>, in the order of the source.\<close>

definition execute_query_except :: "exn \<Rightarrow> exn" where
  "execute_query_except e =
     (case e of
        TimeoutError \<Rightarrow>
          HTTPException 408 ''Database query timed out. Please try a simpler query.''
      | _ \<Rightarrow>
          (let error_msg = str_exn e
           in if contains (lower error_msg) ''column''
                 \<and> contains (lower error_msg) ''does not exist''
                 \<and> (\<exists>computed_col \<in> set [''final_status'', ''success_rate'', ''count''].
                      contains (lower error_msg) computed_col)
              then HTTPException 400 computed_col_detail
              else HTTPException 500 (''Failed to execute query: '' @ str_exn e)))"

text \<open>
  \<open>execute_query\<close>: when the connection cannot be had, \<open>conn\<close> stays \<open>None\<close> and the
  \<open>finally\<close> block closes nothing; otherwise the connection is closed whatever happens.
\<close>

definition execute_query :: "env \<Rightarrow> state \<Rightarrow> string \<Rightarrow> (exn + row list) \<times> state" where
  "execute_query ev st sql =
     (case get_transactions_db_connection ev (trace st) of
        Inl e \<Rightarrow> (Inl (execute_query_except e), st)
      | Inr conn \<Rightarrow>
          (let st1 = (log Connect st)\<lparr>open_connections := Suc (open_connections st)\<rparr>;
               limited = limited_query (MAX_QUERY_RESULTS ev) sql;
               rows = with_timeout (conn_fetch ev (trace st1) limited) (DATABASE_TIMEOUT ev)
                        ''Database query execution'';
               st2 = log (Fetch limited) st1;
               st3 = (log Close st2)\<lparr>open_connections := open_connections st2 - 1\<rparr>
           in (case rows of
                 Inr result \<Rightarrow> (Inr result, st3)
               | Inl e \<Rightarrow> (Inl (execute_query_except e), st3))))"

section \<open>The chat pipeline (\<open>services/chat_service.py\<close>)\<close>

text \<open>A line break followed by the indentation of the source's triple-quoted f-strings.\<close>

definition ind :: "nat \<Rightarrow> string" where
  "ind n = newline # replicate n (CHR '' '')"

definition str_int :: "int \<Rightarrow> string" where
  "str_int i = (if i < 0 then ''-'' @ str_nat (nat (- i)) else str_nat (nat i))"

text \<open>\<open>x or 'None'\<close> for an optional string.\<close>

definition or_None :: "string option \<Rightarrow> string" where
  "or_None x = (case x of None \<Rightarrow> ''None'' | Some v \<Rightarrow> if v = [] then ''None'' else v)"

text \<open>A local variable of the Python function is bound or not yet assigned.\<close>

datatype 'a local_var = Unbound | Bound 'a

subsection \<open>Opening the chat (lines 22 to 36)\<close>

definition open_chat ::
  "env \<Rightarrow> state \<Rightarrow> ChatQueryRequest \<Rightarrow> (exn + string \<times> message list) \<times> state" where
  "open_chat ev st request =
     (if req_chat_type request = ''new''
      then (case create_new_chat ev (trace st) of
              Inl e \<Rightarrow> (Inl e, log CreateNewChat st)
            | Inr cid \<Rightarrow> (Inr (cid, []), log CreateNewChat st))
      else (case req_chat_id request of
              None \<Rightarrow> (Inl (HTTPException 400
                  (''chat_id is required when chat_type is '' @ [apos] @ ''existing'' @ [apos])), st)
            | Some cid \<Rightarrow>
                if cid = []
                then (Inl (HTTPException 400
                  (''chat_id is required when chat_type is '' @ [apos] @ ''existing'' @ [apos])), st)
                else (let st1 = log (ChatExists cid) st
                      in case chat_exists_in_db ev (trace st) cid of
                           Inl e \<Rightarrow> (Inl e, st1)
                         | Inr found \<Rightarrow>
                             if \<not> (found \<or> cid \<in> chat_message_cache ev (trace st))
                             then (Inl (HTTPException 404 (''Chat '' @ cid @ '' not found'')), st1)
                             else (let st2 = log (LoadChatMessages cid) st1
                                   in case load_chat_messages_from_db ev (trace st1) cid of
                                        Inl e \<Rightarrow> (Inl e, st2)
                                      | Inr message_history \<Rightarrow> (Inr (cid, message_history), st2)))))"

subsection \<open>Classification (lines 38 to 51)\<close>

definition classify_stage ::
  "env \<Rightarrow> state \<Rightarrow> ChatQueryRequest \<Rightarrow> message list \<Rightarrow> (exn + string) \<times> state" where
  "classify_stage ev st request message_history =
     (let st1 = log (QueryTypeAgentRun (req_query request) message_history) st
      in case with_timeout (query_type_agent_run ev (trace st) (req_query request) message_history)
                (AI_AGENT_TIMEOUT ev) ''Query type classification'' of
           Inr query_type_result \<Rightarrow> (Inr (qt_query_type query_type_result), st1)
         | Inl (HTTPException code detail) \<Rightarrow>
             if code = 408 then (Inr ''sql'', st1) else (Inl (HTTPException code detail), st1)
         | Inl e \<Rightarrow> (Inr ''sql'', st1))"

subsection \<open>SQL generation (lines 56 to 81)\<close>

definition augmented_query :: "env \<Rightarrow> string \<Rightarrow> string" where
  "augmented_query ev q =
     ind 8 @ ''User Query: '' @ q
     @ ind 8 @ ''Available Dataset Columns: '' @ TRANSACTION_COLUMNS_json ev
     @ ind 8 @ ''Please generate a PostgreSQL query to answer this question.''
     @ ind 8"

definition generate_sql ::
  "env \<Rightarrow> state \<Rightarrow> string \<Rightarrow> message list \<Rightarrow> (exn + sql_result) \<times> state" where
  "generate_sql ev st augmented message_history =
     (let history = (if message_history \<noteq> [] then Some message_history else None);
          st1 = log (SqlAgentRun augmented history) st
      in case with_timeout (sql_agent_run ev (trace st) augmented history)
                (AI_AGENT_TIMEOUT ev) ''SQL generation'' of
           Inr sql_res \<Rightarrow> (Inr sql_res, st1)
         | Inl (HTTPException code detail) \<Rightarrow>
             if code = 408
             then (Inl (HTTPException 408
                     ''AI query generation timed out. Please try a simpler question.''), st1)
             else (Inl (HTTPException code detail), st1)
         | Inl e \<Rightarrow> (Inl e, st1))"

subsection \<open>Repair, execution and the retry on a stale computed column (lines 83 to 104)\<close>

text \<open>The result is the final value of \<open>sql_response.sql_query\<close> together with \<open>data\<close>.\<close>

definition execute_with_retry ::
  "env \<Rightarrow> state \<Rightarrow> string \<Rightarrow> sql_result \<Rightarrow> (exn + string \<times> row list) \<times> state" where
  "execute_with_retry ev st augmented sql_res =
     (let validated_query = validate_and_fix_query (sr_sql_query sql_res)
      in case execute_query ev st validated_query of
           (Inr rows, st1) \<Rightarrow> (Inr (validated_query, rows), st1)
         | (Inl (HTTPException code detail), st1) \<Rightarrow>
             if code = 400 \<and> contains detail ''computed column''
             then (let st2 = log (SqlAgentRun augmented None) st1
                   in case with_timeout (sql_agent_run ev (trace st1) augmented None)
                             (AI_AGENT_TIMEOUT ev) ''Fresh SQL generation'' of
                        Inl e \<Rightarrow> (Inl e, st2)
                      | Inr fresh_sql_res \<Rightarrow>
                          (let fresh_validated_query =
                                 validate_and_fix_query (sr_sql_query fresh_sql_res)
                           in case execute_query ev st2 fresh_validated_query of
                                (Inl e, st3) \<Rightarrow> (Inl e, st3)
                              | (Inr rows, st3) \<Rightarrow> (Inr (fresh_validated_query, rows), st3)))
             else (Inl (HTTPException code detail), st1)
         | (Inl e, st1) \<Rightarrow> (Inl e, st1))"

subsection \<open>Chart derivation (lines 124 to 167)\<close>

definition bar_chart_context :: "string \<Rightarrow> string \<Rightarrow> string" where
  "bar_chart_context q sql =
     ind 20 @ ''User Query: '' @ q @ ind 20 @ ''SQL Query: '' @ sql @ ind 20"

definition to_dict :: "BarChartAnalysis \<Rightarrow> bar_chart_dict" where
  "to_dict b = \<lparr>chart_possible = ba_chart_possible b, modified_sql = ba_modified_sql b,
                chart_data = None, chart_data_error = None\<rparr>"

text \<open>The value of \<open>bar_chart_response\<close> after the inner \<open>try\<close>: \<open>None\<close> or the dictionary.\<close>

definition chart_stage ::
  "env \<Rightarrow> state \<Rightarrow> ChatQueryRequest \<Rightarrow> string \<Rightarrow> bar_chart_dict option \<times> state" where
  "chart_stage ev st request sql =
     (let context = bar_chart_context (req_query request) sql;
          st1 = log (BarChartAgentRun context) st
      in case with_timeout (bar_chart_agent_run ev (trace st) context)
                (AI_AGENT_TIMEOUT ev) ''Bar chart analysis'' of
           Inl e \<Rightarrow> (None, st1)
         | Inr None \<Rightarrow> (None, st1)
         | Inr (Some analysis) \<Rightarrow>
             (case ba_modified_sql analysis of
                None \<Rightarrow> (Some (to_dict analysis), st1)
              | Some chart_sql \<Rightarrow>
                  if ba_chart_possible analysis \<and> chart_sql \<noteq> []
                  then (case execute_query ev st1 (validate_and_fix_query chart_sql) of
                          (Inr rows, st2) \<Rightarrow>
                            (Some ((to_dict analysis)\<lparr>chart_data := Some rows\<rparr>), st2)
                        | (Inl chart_e, st2) \<Rightarrow>
                            (Some ((to_dict analysis)\<lparr>chart_data_error := Some (str_exn chart_e)\<rparr>),
                             st2))
                  else (Some (to_dict analysis), st1)))"

subsection \<open>Summarization (lines 106 to 191)\<close>

definition data_context :: "env \<Rightarrow> string \<Rightarrow> row list \<Rightarrow> string" where
  "data_context ev q rows =
     (let summary_data = (if length rows > 50 then take 50 rows else rows)
      in ind 16 @ ''Original Query: '' @ q
         @ ind 16 @ ''Retrieved Data ('' @ str_nat (length rows) @ '' rows, showing first ''
                  @ str_nat (length summary_data) @ ''):''
         @ ind 16 @ json_dumps ev summary_data
         @ ind 16 @ (if length rows > 50
                     then ''... (additional rows truncated for analysis)'' else [])
         @ ind 16 @ ''Total rows: '' @ str_nat (length rows)
         @ ind 16)"

definition no_data_summary :: DataSummaryResponse where
  "no_data_summary =
     \<lparr>ds_summary = ''No data found matching the query criteria.'',
      ds_key_insights = [''No transactions found for the specified criteria''],
      ds_recommendation = Some ''Try adjusting search parameters or check transaction IDs'',
      ds_transaction_status = None\<rparr>"

definition timeout_summary :: "row list \<Rightarrow> DataSummaryResponse" where
  "timeout_summary rows =
     \<lparr>ds_summary = ''Query executed successfully. Retrieved '' @ str_nat (length rows)
                      @ '' records.'',
      ds_key_insights = [''Found '' @ str_nat (length rows) @ '' matching records''],
      ds_recommendation = Some ''Data retrieved successfully. Summary generation timed out.'',
      ds_transaction_status = None\<rparr>"

text \<open>
  The \<open>try\<close> block of lines 106 to 180. Its result is the values of the locals
  \<open>summary_response\<close>, \<open>summary_result.all_messages()\<close> and \<open>bar_chart_response\<close>; the last
  one is assigned only in the branch with data, after the summary call has returned.
\<close>

definition summary_try ::
  "env \<Rightarrow> state \<Rightarrow> ChatQueryRequest \<Rightarrow> string \<Rightarrow> row list \<Rightarrow> message list \<Rightarrow>
   (exn + DataSummaryResponse \<times> message list \<times> bar_chart_dict option local_var) \<times> state" where
  "summary_try ev st request sql rows sql_messages =
     (if rows \<noteq> []
      then (let context = data_context ev (req_query request) rows;
                st1 = log (SummaryAgentRun context sql_messages) st
            in case with_timeout (summary_agent_run ev (trace st) context sql_messages)
                      (AI_AGENT_TIMEOUT ev) ''AI summary generation'' of
                 Inl e \<Rightarrow> (Inl e, st1)
               | Inr summary_res \<Rightarrow>
                   (case chart_stage ev st1 request sql of
                      (bar_chart_response, st2) \<Rightarrow>
                        (Inr (su_data summary_res, su_all_messages summary_res,
                              Bound bar_chart_response), st2)))
      else (let st1 = log (SummaryAgentRun ''No data found for the query.'' sql_messages) st
            in case with_timeout
                      (summary_agent_run ev (trace st) ''No data found for the query.'' sql_messages)
                      (AI_AGENT_TIMEOUT ev) ''AI summary generation'' of
                 Inl e \<Rightarrow> (Inl e, st1)
               | Inr summary_res \<Rightarrow>
                   (Inr (no_data_summary, su_all_messages summary_res, Unbound), st1)))"

text \<open>The \<open>except HTTPException\<close> clause of lines 181 to 191 around it.\<close>

definition summary_stage ::
  "env \<Rightarrow> state \<Rightarrow> ChatQueryRequest \<Rightarrow> string \<Rightarrow> row list \<Rightarrow> message list \<Rightarrow>
   (exn + DataSummaryResponse \<times> message list \<times> bar_chart_dict option local_var) \<times> state" where
  "summary_stage ev st request sql rows sql_messages =
     (case summary_try ev st request sql rows sql_messages of
        (Inr v, st1) \<Rightarrow> (Inr v, st1)
      | (Inl (HTTPException code detail), st1) \<Rightarrow>
          if code = 408 then (Inr (timeout_summary rows, sql_messages, Unbound), st1)
          else (Inl (HTTPException code detail), st1)
      | (Inl e, st1) \<Rightarrow> (Inl e, st1))"

subsection \<open>Response compaction and history (lines 210 to 243 and 312 to 344)\<close>

text \<open>\<open>compact_stage\<close> is the \<open>try\<close> around the response summary agent, with its three
  outcomes; \<open>summary_text\<close> is the summary that the timeout fallback quotes.\<close>

definition compact_stage :: "env \<Rightarrow> state \<Rightarrow> string \<Rightarrow> string \<Rightarrow> string \<times> state" where
  "compact_stage ev st response_context summary_text =
     (let st1 = log (ResponseSummaryAgentRun response_context) st
      in case with_timeout (response_summary_agent_run ev (trace st) response_context)
                (AI_AGENT_TIMEOUT ev) ''Response summary generation'' of
           Inr res \<Rightarrow> (rs_summary res @ '' '' @ rs_metadata res, st1)
         | Inl (HTTPException code detail) \<Rightarrow>
             if code = 408
             then (''Summary: '' @ take 100 summary_text @ ''... (Summary generation timed out)'', st1)
             else (''Summary generation failed: '' @ str_exn (HTTPException code detail), st1)
         | Inl e \<Rightarrow> (''Summary generation error: '' @ str_exn e, st1))"

definition sql_response_context ::
  "string \<Rightarrow> string \<Rightarrow> DataSummaryResponse \<Rightarrow> nat \<Rightarrow> int \<Rightarrow> string" where
  "sql_response_context q sql summary_response n execution_time =
     ind 12 @ ''User Query: '' @ q
     @ ind 12 @ ''SQL Query: '' @ sql
     @ ind 12 @ ''Data Summary: '' @ ds_summary summary_response
     @ ind 12 @ ''Key Insights: '' @ join '', '' (ds_key_insights summary_response)
     @ ind 12 @ ''Recommendation: '' @ or_None (ds_recommendation summary_response)
     @ ind 12 @ ''Records Found: '' @ str_nat n
     @ ind 12 @ ''Execution Time: '' @ str_int execution_time @ ''ms''
     @ ind 12 @ ''Success: True''
     @ ind 12"

text \<open>Lines 193 to 245, from the point where all locals are bound: the response is built,
  compacted and stored. Failures of the history update are swallowed by the source.\<close>

definition finish_sql_turn ::
  "env \<Rightarrow> state \<Rightarrow> ChatQueryRequest \<Rightarrow> string \<Rightarrow> int \<Rightarrow> string \<Rightarrow> row list \<Rightarrow>
   DataSummaryResponse \<Rightarrow> message list \<Rightarrow> bar_chart_dict option \<Rightarrow> ChatResponse \<times> state" where
  "finish_sql_turn ev st request cid start_time sql rows summary_response all_messages
       bar_chart_response =
     (let execution_time = now ev (trace st) - start_time;
          chat_response =
            \<lparr>success = True, chat_id = cid, query = req_query request, sql_query = sql,
             data = rows, summary = ds_summary summary_response,
             insights = ds_key_insights summary_response,
             recommendation = ds_recommendation summary_response,
             response_summary = None, execution_time_ms = execution_time,
             record_count = length rows, bar_chart = bar_chart_response\<rparr>
      in case compact_stage ev st
                (sql_response_context (req_query request) sql summary_response (length rows)
                   execution_time)
                (ds_summary summary_response) of
           (compacted, st1) \<Rightarrow>
             (chat_response\<lparr>response_summary := Some compacted\<rparr>,
              log (UpdateChatHistory cid all_messages (req_query request) (Some compacted)) st1))"

subsection \<open>The simple path (\<open>handle_simple_llm_query_service\<close>)\<close>

definition simple_context :: "string \<Rightarrow> string" where
  "simple_context q =
     ind 8 @ ''User Query: '' @ q
     @ ind 8
     @ ind 8 @ ''This is a simple conversational query that doesn'' @ [apos]
             @ ''t require database analysis.''
     @ ind 8 @ ''Provide a helpful, informative response based on general knowledge about ''
     @ ind 8 @ ''financial transactions, payment processing, or answer the user'' @ [apos]
             @ ''s question directly.''
     @ ind 8"

definition simple_timeout_summary :: DataSummaryResponse where
  "simple_timeout_summary =
     \<lparr>ds_summary = ''I'' @ [apos] @ ''m here to help with your payment and transaction ''
                      @ ''questions. Could you please rephrase your question?'',
      ds_key_insights = [''Response generation timed out''],
      ds_recommendation = Some ''Please try asking your question again or be more specific.'',
      ds_transaction_status = None\<rparr>"

definition simple_response_context :: "string \<Rightarrow> DataSummaryResponse \<Rightarrow> int \<Rightarrow> string" where
  "simple_response_context q simple_response execution_time =
     ind 12 @ ''User Query: '' @ q
     @ ind 12 @ ''Query Type: Simple conversational query (no SQL needed)''
     @ ind 12 @ ''Response Summary: '' @ ds_summary simple_response
     @ ind 12 @ ''Key Insights: '' @ join '', '' (ds_key_insights simple_response)
     @ ind 12 @ ''Recommendation: '' @ or_None (ds_recommendation simple_response)
     @ ind 12 @ ''Execution Time: '' @ str_int execution_time @ ''ms''
     @ ind 12 @ ''Success: True''
     @ ind 12"

text \<open>Lines 295 to 346; \<open>all_messages\<close> is \<open>simple_result.all_messages()\<close> when
  \<open>simple_result\<close> is bound and the empty list otherwise.\<close>

definition finish_simple_turn ::
  "env \<Rightarrow> state \<Rightarrow> ChatQueryRequest \<Rightarrow> string \<Rightarrow> int \<Rightarrow> DataSummaryResponse \<Rightarrow>
   message list \<Rightarrow> ChatResponse \<times> state" where
  "finish_simple_turn ev st request cid start_time simple_response all_messages =
     (let execution_time = now ev (trace st) - start_time;
          chat_response =
            \<lparr>success = True, chat_id = cid, query = req_query request, sql_query = [],
             data = [], summary = ds_summary simple_response,
             insights = ds_key_insights simple_response,
             recommendation = ds_recommendation simple_response,
             response_summary = None, execution_time_ms = execution_time,
             record_count = 0, bar_chart = None\<rparr>
      in case compact_stage ev st
                (simple_response_context (req_query request) simple_response execution_time)
                (ds_summary simple_response) of
           (compacted, st1) \<Rightarrow>
             (chat_response\<lparr>response_summary := Some compacted\<rparr>,
              log (UpdateChatHistory cid all_messages (req_query request) (Some compacted)) st1))"

text \<open>The body of the outer \<open>try\<close> of the simple path.\<close>

definition simple_try ::
  "env \<Rightarrow> state \<Rightarrow> ChatQueryRequest \<Rightarrow> string \<Rightarrow> message list \<Rightarrow> int \<Rightarrow>
   (exn + ChatResponse) \<times> state" where
  "simple_try ev st request cid message_history start_time =
     (let context = simple_context (req_query request);
          st1 = log (SummaryAgentRun context message_history) st
      in case with_timeout (summary_agent_run ev (trace st) context message_history)
                (AI_AGENT_TIMEOUT ev) ''Simple query response generation'' of
           Inr simple_result \<Rightarrow>
             (case finish_simple_turn ev st1 request cid start_time (su_data simple_result)
                     (su_all_messages simple_result) of
                (resp, st2) \<Rightarrow> (Inr resp, st2))
         | Inl (HTTPException code detail) \<Rightarrow>
             if code = 408
             then (case finish_simple_turn ev st1 request cid start_time simple_timeout_summary [] of
                     (resp, st2) \<Rightarrow> (Inr resp, st2))
             else (Inl (HTTPException code detail), st1)
         | Inl e \<Rightarrow> (Inl e, st1))"

definition handle_simple_llm_query_service ::
  "env \<Rightarrow> state \<Rightarrow> ChatQueryRequest \<Rightarrow> string \<Rightarrow> message list \<Rightarrow> int \<Rightarrow>
   (exn + ChatResponse) \<times> state" where
  "handle_simple_llm_query_service ev st request cid message_history start_time =
     (case simple_try ev st request cid message_history start_time of
        (Inr resp, st1) \<Rightarrow> (Inr resp, st1)
      | (Inl (HTTPException code detail), st1) \<Rightarrow> (Inl (HTTPException code detail), st1)
      | (Inl e, st1) \<Rightarrow>
          (Inr \<lparr>success = False, chat_id = cid, query = req_query request, sql_query = [],
                data = [], summary = ''Error handling simple query: '' @ str_exn e,
                insights = [], recommendation = None, response_summary = None,
                execution_time_ms = now ev (trace st1) - start_time,
                record_count = 0, bar_chart = None\<rparr>, st1))"

subsection \<open>The orchestrator (\<open>handle_chat_query_service\<close>)\<close>

text \<open>The SQL path, lines 56 to 245. Line 194 reads \<open>bar_chart_response\<close>; where that local was
  never assigned the read raises \<open>UnboundLocalError\<close>.\<close>

definition sql_turn ::
  "env \<Rightarrow> state \<Rightarrow> ChatQueryRequest \<Rightarrow> string \<Rightarrow> message list \<Rightarrow> int \<Rightarrow>
   (exn + ChatResponse) \<times> state" where
  "sql_turn ev st request cid message_history start_time =
     (let augmented = augmented_query ev (req_query request)
      in case generate_sql ev st augmented message_history of
           (Inl e, st1) \<Rightarrow> (Inl e, st1)
         | (Inr sql_res, st1) \<Rightarrow>
             (case execute_with_retry ev st1 augmented sql_res of
                (Inl e, st2) \<Rightarrow> (Inl e, st2)
              | (Inr (sql, rows), st2) \<Rightarrow>
                  (case summary_stage ev st2 request sql rows (sr_all_messages sql_res) of
                     (Inl e, st3) \<Rightarrow> (Inl e, st3)
                   | (Inr (summary_response, all_messages, Unbound), st3) \<Rightarrow>
                       (Inl (UnboundLocalError ''bar_chart_response''), st3)
                   | (Inr (summary_response, all_messages, Bound bar_chart_response), st3) \<Rightarrow>
                       (case finish_sql_turn ev st3 request cid start_time sql rows
                               summary_response all_messages bar_chart_response of
                          (resp, st4) \<Rightarrow> (Inr resp, st4)))))"

text \<open>The body of the outer \<open>try\<close>, lines 22 to 245.\<close>

definition chat_try ::
  "env \<Rightarrow> state \<Rightarrow> ChatQueryRequest \<Rightarrow> int \<Rightarrow> (exn + ChatResponse) \<times> state" where
  "chat_try ev st request start_time =
     (case open_chat ev st request of
        (Inl e, st1) \<Rightarrow> (Inl e, st1)
      | (Inr (cid, message_history), st1) \<Rightarrow>
          (case classify_stage ev st1 request message_history of
             (Inl e, st2) \<Rightarrow> (Inl e, st2)
           | (Inr query_type, st2) \<Rightarrow>
               if query_type = ''simple''
               then handle_simple_llm_query_service ev st2 request cid message_history start_time
               else sql_turn ev st2 request cid message_history start_time))"

text \<open>\<open>request.chat_id or "unknown"\<close>.\<close>

definition chat_id_or_unknown :: "ChatQueryRequest \<Rightarrow> string" where
  "chat_id_or_unknown request =
     (case req_chat_id request of None \<Rightarrow> ''unknown''
      | Some cid \<Rightarrow> if cid = [] then ''unknown'' else cid)"

text \<open>The whole function: \<open>except HTTPException: raise\<close>, then \<open>except Exception\<close>, which
  answers with the failure response.\<close>

definition handle_chat_query_service ::
  "env \<Rightarrow> state \<Rightarrow> ChatQueryRequest \<Rightarrow> (exn + ChatResponse) \<times> state" where
  "handle_chat_query_service ev st request =
     (let start_time = now ev (trace st)
      in case chat_try ev st request start_time of
           (Inr resp, st1) \<Rightarrow> (Inr resp, st1)
         | (Inl (HTTPException code detail), st1) \<Rightarrow> (Inl (HTTPException code detail), st1)
         | (Inl e, st1) \<Rightarrow>
             (Inr \<lparr>success = False, chat_id = chat_id_or_unknown request,
                   query = req_query request, sql_query = [], data = [],
                   summary = ''Error: '' @ str_exn e, insights = [], recommendation = None,
                   response_summary = None,
                   execution_time_ms = now ev (trace st1) - start_time,
                   record_count = 0, bar_chart = None\<rparr>, st1))"

section \<open>The wording of the specification on the row limit\<close>

text \<open>
  The specification speaks of a statement that has a \<open>LIMIT\<close> clause and of a statement that
  is a count-style aggregate. Read on the words of the statement: \<open>sql_words\<close> splits a text
  into its maximal runs of word characters, and a statement has a \<open>LIMIT\<close> clause when
  \<open>LIMIT\<close> is one of its words, and is a count-style aggregate when \<open>COUNT\<close> is one.
\<close>

fun split_words :: "string \<Rightarrow> string \<Rightarrow> string list" where
  "split_words w [] = (if w = [] then [] else [rev w])"
| "split_words w (c # cs) =
     (if is_word c then split_words (c # w) cs
      else (if w = [] then [] else [rev w]) @ split_words [] cs)"

definition sql_words :: "string \<Rightarrow> string list" where
  "sql_words s = split_words [] s"

definition spec_has_limit_clause :: "string \<Rightarrow> bool" where
  "spec_has_limit_clause sql = (''LIMIT'' \<in> set (sql_words (upper sql)))"

definition spec_is_count_aggregate :: "string \<Rightarrow> bool" where
  "spec_is_count_aggregate sql = (''COUNT'' \<in> set (sql_words (upper sql)))"

section \<open>Sample collaborators\<close>

text \<open>
  A world in which every collaborator answers at once: the classifier says \<open>sql\<close>, the SQL
  agent writes \<open>SELECT 1\<close>, the database returns one row, the chart agent has nothing to
  say. The variants below change one collaborator each.
\<close>

definition sample_summary :: DataSummaryResponse where
  "sample_summary = \<lparr>ds_summary = ''One row.'', ds_key_insights = [''one''],
     ds_recommendation = None, ds_transaction_status = None\<rparr>"

definition sample_env :: env where
  "sample_env =
     \<lparr>AI_AGENT_TIMEOUT = 30, DATABASE_TIMEOUT = 30, MAX_QUERY_RESULTS = 1000,
      TRANSACTION_COLUMNS_json = ''[]'',
      json_dumps = (\<lambda>rows. ''[]''),
      now = (\<lambda>tr. int (length tr)),
      create_new_chat = (\<lambda>tr. Inr ''c1''),
      chat_exists_in_db = (\<lambda>tr cid. Inr False),
      chat_message_cache = (\<lambda>tr. {}),
      load_chat_messages_from_db = (\<lambda>tr cid. Inr []),
      query_type_agent_run = (\<lambda>tr q h. Coro 1 (Inr \<lparr>qt_query_type = ''sql''\<rparr>)),
      sql_agent_run = (\<lambda>tr q h. Coro 1 (Inr \<lparr>sr_sql_query = ''SELECT 1'', sr_all_messages = []\<rparr>)),
      summary_agent_run = (\<lambda>tr c h. Coro 1 (Inr \<lparr>su_data = sample_summary, su_all_messages = []\<rparr>)),
      bar_chart_agent_run = (\<lambda>tr c. Coro 1 (Inr None)),
      response_summary_agent_run =
        (\<lambda>tr c. Coro 1 (Inr \<lparr>rs_summary = ''ok'', rs_metadata = ''{}''\<rparr>)),
      get_transactions_db_connection = (\<lambda>tr. Inr ()),
      conn_fetch = (\<lambda>tr q. Coro 1 (Inr [[(''n'', ''1'')]]))\<rparr>"

definition sample_state :: state where
  "sample_state = \<lparr>trace = [], open_connections = 0\<rparr>"

definition sample_request :: ChatQueryRequest where
  "sample_request = \<lparr>req_query = ''how many?'', req_chat_type = ''new'', req_chat_id = None\<rparr>"

text \<open>The classifier raises an \<open>HTTPException\<close> of status 500.\<close>

definition classifier_http_error_env :: env where
  "classifier_http_error_env =
     sample_env\<lparr>query_type_agent_run := (\<lambda>tr q h. Coro 1 (Inl (HTTPException 500 ''classifier down'')))\<rparr>"

text \<open>The classifier raises an ordinary exception.\<close>

definition classifier_error_env :: env where
  "classifier_error_env =
     sample_env\<lparr>query_type_agent_run := (\<lambda>tr q h. Coro 1 (Inl (Error ''model overloaded'')))\<rparr>"

text \<open>The database refuses the statement with an error that names no column.\<close>

definition db_error_env :: env where
  "db_error_env = sample_env\<lparr>conn_fetch := (\<lambda>tr q. Coro 1 (Inl (Error ''syntax error'')))\<rparr>"

text \<open>The SQL agent raises an ordinary exception.\<close>

definition sql_agent_error_env :: env where
  "sql_agent_error_env = sample_env\<lparr>sql_agent_run := (\<lambda>tr q h. Coro 1 (Inl (Error ''agent failed'')))\<rparr>"

text \<open>The query returns one row and the summary agent never answers.\<close>

definition summary_timeout_env :: env where
  "summary_timeout_env = sample_env\<lparr>summary_agent_run := (\<lambda>tr c h. Never)\<rparr>"

text \<open>The query returns no row.\<close>

definition no_rows_env :: env where
  "no_rows_env = sample_env\<lparr>conn_fetch := (\<lambda>tr q. Coro 1 (Inr []))\<rparr>"

text \<open>The database reports the column \<open>final_status\<close> as missing, every time.\<close>

definition missing_column_message :: string where
  "missing_column_message =
     ''column '' @ [CHR 0x22] @ ''final_status'' @ [CHR 0x22] @ '' does not exist''"

definition stale_column_env :: env where
  "stale_column_env =
     sample_env\<lparr>conn_fetch := (\<lambda>tr q. Coro 1 (Inl (Error missing_column_message)))\<rparr>"

text \<open>The chart agent proposes a chart query, which the database then refuses.\<close>

definition chart_env :: env where
  "chart_env =
     sample_env\<lparr>bar_chart_agent_run :=
       (\<lambda>tr c. Coro 1 (Inr (Some \<lparr>ba_chart_possible = True, ba_modified_sql = Some ''SELECT 2''\<rparr>))),
       conn_fetch := (\<lambda>tr q. if q = ''SELECT 2 LIMIT 1000;''
                               then Coro 1 (Inl (Error ''syntax error''))
                               else Coro 1 (Inr [[(''n'', ''1'')]]))\<rparr>"

text \<open>The chart agent never answers.\<close>

definition chart_timeout_env :: env where
  "chart_timeout_env = sample_env\<lparr>bar_chart_agent_run := (\<lambda>tr c. Never)\<rparr>"

text \<open>The classifier never answers.\<close>

definition classifier_timeout_env :: env where
  "classifier_timeout_env = sample_env\<lparr>query_type_agent_run := (\<lambda>tr q h. Never)\<rparr>"

text \<open>The events of a trace that are runs of the SQL agent, and those that are statements
  sent to the database.\<close>

fun is_sql_agent_run :: "event \<Rightarrow> bool" where
  "is_sql_agent_run (SqlAgentRun prompt history) = True"
| "is_sql_agent_run e = False"

fun is_fetch :: "event \<Rightarrow> bool" where
  "is_fetch (Fetch sql) = True"
| "is_fetch e = False"

text \<open>The events that a run added to the trace of the state it started from.\<close>

definition events_since :: "state \<Rightarrow> state \<Rightarrow> event list" where
  "events_since st st' = drop (length (trace st)) (trace st')"

section \<open>Bounded execution and the row limit\<close>




lemma limited_query_sent:
  assumes "get_transactions_db_connection ev (trace st) = Inr c"
  shows "trace (snd (execute_query ev st sql))
         = trace st @ [Connect,
             Fetch (if contains (upper sql) ''LIMIT'' \<or> contains (upper sql) ''COUNT''
                    then sql
                    else rstrip (CHR '';'') sql @ '' LIMIT '' @ str_nat (MAX_QUERY_RESULTS ev) @ '';''),
             Close]"
  using assms
  by (simp add: execute_query_def limited_query_def log_def Let_def split: sum.splits)

lemma sample_connection:
  "get_transactions_db_connection sample_env (trace sample_state) = Inr ()"
  by (simp add: sample_env_def)

lemma limit_select_id:
  "(if contains (upper ''SELECT id FROM transactions;'') ''LIMIT''
       \<or> contains (upper ''SELECT id FROM transactions;'') ''COUNT''
    then ''SELECT id FROM transactions;''
    else rstrip (CHR '';'') ''SELECT id FROM transactions;'' @ '' LIMIT ''
         @ str_nat (MAX_QUERY_RESULTS sample_env) @ '';'')
   = ''SELECT id FROM transactions LIMIT 1000;''"
  by code_simp

lemma limit_select_account_id:
  "contains (upper ''SELECT account_id FROM transactions'') ''COUNT''"
  by code_simp

lemma limit_select_country:
  "contains (upper ''SELECT country FROM transactions'') ''COUNT''"
  by code_simp

lemma spec_words_account_id:
  "\<not> spec_has_limit_clause ''SELECT account_id FROM transactions''
   \<and> \<not> spec_is_count_aggregate ''SELECT account_id FROM transactions''
   \<and> \<not> spec_has_limit_clause ''SELECT country FROM transactions''
   \<and> \<not> spec_is_count_aggregate ''SELECT country FROM transactions''
   \<and> \<not> spec_has_limit_clause ''SELECT id FROM transactions;''
   \<and> \<not> spec_is_count_aggregate ''SELECT id FROM transactions;''"
  by code_simp

text \<open>
  Claim C9 against the code. The comment of line 60 announces a \<open>LIMIT\<close> added to prevent
  memory issues if not already present, and the docstring of \<open>execute_query\<close> announces
  result limiting; the test of line 62 looks for the letters \<open>LIMIT\<close> and \<open>COUNT\<close> anywhere
  in the upper-cased text. A statement that selects the column \<open>account_id\<close> has no \<open>LIMIT\<close>
  clause and is no count-style aggregate, and yet it is sent to the database as given,
  without a row limit, because \<open>ACCOUNT_ID\<close> contains \<open>COUNT\<close>; the same happens for the
  column \<open>country\<close>. A statement without those letters, such as one that selects \<open>id\<close>, is
  sent with the limit.
\<close>

theorem limit_missing_for_account_id:
  "\<not> spec_has_limit_clause ''SELECT account_id FROM transactions''
   \<and> \<not> spec_is_count_aggregate ''SELECT account_id FROM transactions''
   \<and> trace (snd (execute_query sample_env sample_state ''SELECT account_id FROM transactions''))
       = [Connect, Fetch ''SELECT account_id FROM transactions'', Close]
   \<and> \<not> spec_has_limit_clause ''SELECT country FROM transactions''
   \<and> \<not> spec_is_count_aggregate ''SELECT country FROM transactions''
   \<and> trace (snd (execute_query sample_env sample_state ''SELECT country FROM transactions''))
       = [Connect, Fetch ''SELECT country FROM transactions'', Close]
   \<and> \<not> spec_has_limit_clause ''SELECT id FROM transactions;''
   \<and> \<not> spec_is_count_aggregate ''SELECT id FROM transactions;''
   \<and> trace (snd (execute_query sample_env sample_state ''SELECT id FROM transactions;''))
       = [Connect, Fetch ''SELECT id FROM transactions LIMIT 1000;'', Close]"
  using limited_query_sent [OF sample_connection, of "''SELECT account_id FROM transactions''"]
        limited_query_sent [OF sample_connection, of "''SELECT country FROM transactions''"]
        limited_query_sent [OF sample_connection, of "''SELECT id FROM transactions;''"]
        limit_select_id limit_select_account_id limit_select_country spec_words_account_id
  by (simp add: sample_state_def)

section \<open>The invariants of the response\<close>

lemma finish_sql_turn_fields:
  assumes "finish_sql_turn ev st request cid start sql rows sr msgs bar = (resp, st')"
  shows "success resp \<and> data resp = rows \<and> record_count resp = length rows
         \<and> sql_query resp = sql \<and> bar_chart resp = bar"
  using assms by (auto simp: finish_sql_turn_def Let_def split: prod.splits)

lemma finish_simple_turn_fields:
  assumes "finish_simple_turn ev st request cid start sr msgs = (resp, st')"
  shows "success resp \<and> data resp = [] \<and> record_count resp = 0
         \<and> sql_query resp = [] \<and> bar_chart resp = None"
  using assms by (auto simp: finish_simple_turn_def Let_def split: prod.splits)

lemma simple_try_fields:
  assumes "simple_try ev st request cid mh start = (Inr resp, st')"
  shows "success resp \<and> data resp = [] \<and> record_count resp = 0
         \<and> sql_query resp = [] \<and> bar_chart resp = None"
  using assms
  by (auto simp: simple_try_def Let_def dest: finish_simple_turn_fields
           split: sum.splits exn.splits prod.splits if_splits)

lemma simple_service_fields:
  assumes "handle_simple_llm_query_service ev st request cid mh start = (Inr resp, st')"
  shows "data resp = [] \<and> record_count resp = 0 \<and> sql_query resp = [] \<and> bar_chart resp = None"
  using assms
  by (auto simp: handle_simple_llm_query_service_def dest: simple_try_fields
           split: sum.splits exn.splits prod.splits if_splits)

lemma chart_stage_exclusive:
  assumes "fst (chart_stage ev st request sql) = Some b"
  shows "\<not> (chart_data b \<noteq> None \<and> chart_data_error b \<noteq> None)"
  using assms
  by (auto simp: chart_stage_def to_dict_def Let_def
           split: sum.splits option.splits prod.splits if_splits)

lemma summary_try_bound:
  assumes "summary_try ev st request sql rows msgs = (Inr (sr, ms', Bound b), st')"
  shows "rows \<noteq> [] \<and> (\<exists>st1. b = fst (chart_stage ev st1 request sql))"
  using assms
  by (auto simp: summary_try_def Let_def split: sum.splits prod.splits if_splits)
     (metis fst_conv)

lemma summary_stage_bound:
  assumes "summary_stage ev st request sql rows msgs = (Inr (sr, ms', Bound b), st')"
  shows "rows \<noteq> [] \<and> (\<exists>st1. b = fst (chart_stage ev st1 request sql))"
proof -
  from assms have "summary_try ev st request sql rows msgs = (Inr (sr, ms', Bound b), st')"
    by (auto simp: summary_stage_def split: sum.splits prod.splits exn.splits if_splits)
  then show ?thesis
    by (rule summary_try_bound)
qed

lemma sql_turn_fields:
  assumes "sql_turn ev st request cid mh start = (Inr resp, st')"
  shows "success resp \<and> record_count resp = length (data resp) \<and> data resp \<noteq> []
         \<and> (\<forall>b. bar_chart resp = Some b
               \<longrightarrow> \<not> (chart_data b \<noteq> None \<and> chart_data_error b \<noteq> None))"
proof -
  from assms obtain sql rows sr msgs bar st3 st2 and sql_res :: sql_result where
    s: "summary_stage ev st2 request sql rows (sr_all_messages sql_res) = (Inr (sr, msgs, Bound bar), st3)"
    and f: "finish_sql_turn ev st3 request cid start sql rows sr msgs bar = (resp, st')"
    by (auto simp: sql_turn_def Let_def
             split: sum.splits prod.splits local_var.splits)
  from summary_stage_bound [OF s] obtain st1 where
    r: "rows \<noteq> []" and b: "bar = fst (chart_stage ev st1 request sql)"
    by blast
  from finish_sql_turn_fields [OF f] r b show ?thesis
    using chart_stage_exclusive [of ev st1 request sql] by auto
qed

lemma chat_try_fields:
  assumes "chat_try ev st request start = (Inr resp, st')"
  shows "record_count resp = length (data resp)
         \<and> (\<not> success resp \<longrightarrow> data resp = [] \<and> sql_query resp = [])
         \<and> (\<forall>b. bar_chart resp = Some b
               \<longrightarrow> \<not> (chart_data b \<noteq> None \<and> chart_data_error b \<noteq> None))"
  using assms
  by (auto simp: chat_try_def dest: sql_turn_fields simple_service_fields
           split: sum.splits prod.splits if_splits)

lemma service_fields:
  assumes "fst (handle_chat_query_service ev st request) = Inr resp"
  shows "record_count resp = length (data resp)
         \<and> (\<not> success resp \<longrightarrow> data resp = [] \<and> sql_query resp = [])
         \<and> (\<forall>b. bar_chart resp = Some b
               \<longrightarrow> \<not> (chart_data b \<noteq> None \<and> chart_data_error b \<noteq> None))"
proof (cases "chat_try ev st request (now ev (trace st))")
  case (Pair r st1)
  show ?thesis
  proof (cases r)
    case (Inr resp')
    with Pair assms have "resp' = resp"
      by (simp add: handle_chat_query_service_def Let_def)
    with Pair Inr show ?thesis
      using chat_try_fields by blast
  next
    case (Inl e)
    with Pair assms show ?thesis
      by (cases e) (auto simp: handle_chat_query_service_def Let_def)
  qed
qed

text \<open>
  Claim C7. Every \<open>ChatResponse\<close> that \<open>handle_chat_query_service\<close> returns, on the SQL
  path, on the simple path or from an \<open>except\<close> clause, has \<open>record_count\<close> equal to the
  length of \<open>data\<close>, and when \<open>success\<close> is false its \<open>data\<close> is empty and its \<open>sql_query\<close> is
  the empty string.
\<close>

theorem response_invariants:
  assumes "fst (handle_chat_query_service ev st request) = Inr resp"
  shows "record_count resp = length (data resp)
         \<and> (\<not> success resp \<longrightarrow> data resp = [] \<and> sql_query resp = [])"
  using service_fields [OF assms] by blast

lemmas stage_defs = handle_chat_query_service_def chat_try_def open_chat_def classify_stage_def
  sql_turn_def generate_sql_def execute_with_retry_def execute_query_def summary_stage_def
  summary_try_def chart_stage_def finish_sql_turn_def compact_stage_def
  handle_simple_llm_query_service_def simple_try_def finish_simple_turn_def
  with_timeout_def log_def Let_def to_dict_def chat_id_or_unknown_def

lemmas sample_defs = sample_env_def sample_state_def sample_request_def sample_summary_def

lemma repair_select_1: "validate_and_fix_query ''SELECT 1'' = ''SELECT 1''"
  by code_simp

lemma sample_turn:
  "fst (handle_chat_query_service sample_env sample_state sample_request)
   = Inr \<lparr>success = True, chat_id = ''c1'', query = ''how many?'', sql_query = ''SELECT 1'',
          data = [[(''n'', ''1'')]], summary = ''One row.'', insights = [''one''],
          recommendation = None, response_summary = Some ''ok {}'', execution_time_ms = 8,
          record_count = 1, bar_chart = None\<rparr>"
  by (simp add: stage_defs sample_defs repair_select_1)

lemma sql_agent_error_turn:
  "fst (handle_chat_query_service sql_agent_error_env sample_state sample_request)
   = Inr \<lparr>success = False, chat_id = ''unknown'', query = ''how many?'', sql_query = [],
          data = [], summary = ''Error: agent failed'', insights = [],
          recommendation = None, response_summary = None, execution_time_ms = 3,
          record_count = 0, bar_chart = None\<rparr>"
  by (simp add: stage_defs sample_defs sql_agent_error_env_def)

theorem response_invariants_witness:
  "fst (handle_chat_query_service sample_env sample_state sample_request)
     = Inr \<lparr>success = True, chat_id = ''c1'', query = ''how many?'', sql_query = ''SELECT 1'',
          data = [[(''n'', ''1'')]], summary = ''One row.'', insights = [''one''],
          recommendation = None, response_summary = Some ''ok {}'', execution_time_ms = 8,
          record_count = 1, bar_chart = None\<rparr>
   \<and> (1::nat) = length [[(''n'', ''1'')]]
   \<and> fst (handle_chat_query_service sql_agent_error_env sample_state sample_request)
     = Inr \<lparr>success = False, chat_id = ''unknown'', query = ''how many?'', sql_query = [],
          data = [], summary = ''Error: agent failed'', insights = [],
          recommendation = None, response_summary = None, execution_time_ms = 3,
          record_count = 0, bar_chart = None\<rparr>"
  using response_invariants [OF sample_turn] response_invariants [OF sql_agent_error_turn]
        sample_turn sql_agent_error_turn
  by simp

section \<open>Chart derivation\<close>

lemma with_timeout_ok:
  "wait_for c t = Inr v \<Longrightarrow> with_timeout c t n = Inr v"
  by (simp add: with_timeout_def)

lemma with_timeout_Inl:
  "wait_for c t = Inl e \<Longrightarrow> \<exists>e'. with_timeout c t n = Inl e'"
  by (auto simp: with_timeout_def split: sum.splits exn.splits)

lemma with_timeout_TimeoutError:
  "wait_for c t = Inl TimeoutError \<Longrightarrow>
   with_timeout c t n = Inl (HTTPException 408
     (n @ '' timed out. Please try a simpler query or check your connection.''))"
  by (simp add: with_timeout_def)

lemma with_timeout_other:
  "wait_for c t = Inl e \<Longrightarrow> e \<noteq> TimeoutError \<Longrightarrow> with_timeout c t n = Inl e"
  by (cases e) (simp_all add: with_timeout_def)

lemma chart_stage_agent_failure:
  assumes "wait_for (bar_chart_agent_run ev (trace st) (bar_chart_context (req_query request) sql))
             (AI_AGENT_TIMEOUT ev) = Inl e"
  shows "fst (chart_stage ev st request sql) = None"
  using with_timeout_Inl [OF assms, of "''Bar chart analysis''"]
  by (auto simp: chart_stage_def Let_def)

lemma chart_stage_sql_failure:
  assumes "wait_for (bar_chart_agent_run ev (trace st) (bar_chart_context (req_query request) sql))
             (AI_AGENT_TIMEOUT ev) = Inr (Some analysis)"
    and "ba_chart_possible analysis" and "ba_modified_sql analysis = Some chart_sql"
    and "chart_sql \<noteq> []"
    and "fst (execute_query ev (log (BarChartAgentRun (bar_chart_context (req_query request) sql)) st)
                (validate_and_fix_query chart_sql)) = Inl e"
  shows "\<exists>b. fst (chart_stage ev st request sql) = Some b \<and> chart_data b = None
             \<and> chart_data_error b = Some (str_exn e)"
proof -
  from assms(1) have "with_timeout (bar_chart_agent_run ev (trace st)
        (bar_chart_context (req_query request) sql)) (AI_AGENT_TIMEOUT ev) ''Bar chart analysis''
      = Inr (Some analysis)"
    by (rule with_timeout_ok)
  with assms(2-) show ?thesis
    by (auto simp: chart_stage_def Let_def to_dict_def split: prod.splits sum.splits)
qed

lemma sql_turn_with_data:
  assumes g: "generate_sql ev st (augmented_query ev (req_query request)) mh = (Inr sql_res, st1)"
    and x: "execute_with_retry ev st1 (augmented_query ev (req_query request)) sql_res
              = (Inr (sql, rows), st2)"
    and r: "rows \<noteq> []"
    and s: "wait_for (summary_agent_run ev (trace st2) (data_context ev (req_query request) rows)
                       (sr_all_messages sql_res)) (AI_AGENT_TIMEOUT ev) = Inr sres"
  shows "\<exists>resp. fst (sql_turn ev st request cid mh start) = Inr resp \<and> success resp
           \<and> data resp = rows
           \<and> bar_chart resp = fst (chart_stage ev
                 (log (SummaryAgentRun (data_context ev (req_query request) rows)
                        (sr_all_messages sql_res)) st2) request sql)"
proof -
  let ?st = "log (SummaryAgentRun (data_context ev (req_query request) rows)
                    (sr_all_messages sql_res)) st2"
  obtain bar st3 where c: "chart_stage ev ?st request sql = (bar, st3)"
    by (cases "chart_stage ev ?st request sql")
  obtain resp st4 where f: "finish_sql_turn ev st3 request cid start sql rows (su_data sres)
                              (su_all_messages sres) bar = (resp, st4)"
    by (cases "finish_sql_turn ev st3 request cid start sql rows (su_data sres)
                 (su_all_messages sres) bar")
  from s have "with_timeout (summary_agent_run ev (trace st2)
        (data_context ev (req_query request) rows) (sr_all_messages sql_res))
        (AI_AGENT_TIMEOUT ev) ''AI summary generation'' = Inr sres"
    by (rule with_timeout_ok)
  with r c have "summary_stage ev st2 request sql rows (sr_all_messages sql_res)
                   = (Inr (su_data sres, su_all_messages sres, Bound bar), st3)"
    by (simp add: summary_stage_def summary_try_def Let_def)
  with g x f have "fst (sql_turn ev st request cid mh start) = Inr resp"
    by (simp add: sql_turn_def Let_def)
  with finish_sql_turn_fields [OF f] c show ?thesis
    by auto
qed

text \<open>
  Claim C10. Chart derivation never aborts the turn and its result is exclusive:
  a chart agent that fails or times out gives no chart analysis; a chart query that the
  database refuses gives an analysis with \<open>chart_data_error\<close> and without \<open>chart_data\<close>;
  no analysis that the stage produces has both; once the main query has returned rows
  and the summary agent has answered, the SQL path ends in a successful response whose
  chart analysis is whatever the chart stage gave; and no response of the whole service
  carries an analysis with both fields.
\<close>

theorem chart_derivation_non_fatal:
  "(\<forall>e. wait_for (bar_chart_agent_run ev (trace st) (bar_chart_context (req_query request) sql))
            (AI_AGENT_TIMEOUT ev) = Inl e
        \<longrightarrow> fst (chart_stage ev st request sql) = None)
   \<and> (\<forall>analysis chart_sql e.
         wait_for (bar_chart_agent_run ev (trace st) (bar_chart_context (req_query request) sql))
            (AI_AGENT_TIMEOUT ev) = Inr (Some analysis)
         \<and> ba_chart_possible analysis \<and> ba_modified_sql analysis = Some chart_sql
         \<and> chart_sql \<noteq> []
         \<and> fst (execute_query ev
                  (log (BarChartAgentRun (bar_chart_context (req_query request) sql)) st)
                  (validate_and_fix_query chart_sql)) = Inl e
        \<longrightarrow> (\<exists>b. fst (chart_stage ev st request sql) = Some b \<and> chart_data b = None
                 \<and> chart_data_error b = Some (str_exn e)))
   \<and> (\<forall>b. fst (chart_stage ev st request sql) = Some b
        \<longrightarrow> \<not> (chart_data b \<noteq> None \<and> chart_data_error b \<noteq> None))
   \<and> (\<forall>sql_res st1 rows st2 sres.
         generate_sql ev st (augmented_query ev (req_query request)) mh = (Inr sql_res, st1)
         \<and> execute_with_retry ev st1 (augmented_query ev (req_query request)) sql_res
             = (Inr (sql, rows), st2)
         \<and> rows \<noteq> []
         \<and> wait_for (summary_agent_run ev (trace st2) (data_context ev (req_query request) rows)
                       (sr_all_messages sql_res)) (AI_AGENT_TIMEOUT ev) = Inr sres
        \<longrightarrow> (\<exists>resp. fst (sql_turn ev st request cid mh start) = Inr resp \<and> success resp
                \<and> data resp = rows
                \<and> bar_chart resp = fst (chart_stage ev
                     (log (SummaryAgentRun (data_context ev (req_query request) rows)
                            (sr_all_messages sql_res)) st2) request sql)))
   \<and> (\<forall>resp b. fst (handle_chat_query_service ev st request) = Inr resp \<and> bar_chart resp = Some b
        \<longrightarrow> \<not> (chart_data b \<noteq> None \<and> chart_data_error b \<noteq> None))"
proof (intro conjI allI impI)
  fix e
  assume "wait_for (bar_chart_agent_run ev (trace st) (bar_chart_context (req_query request) sql))
            (AI_AGENT_TIMEOUT ev) = Inl e"
  then show "fst (chart_stage ev st request sql) = None"
    by (rule chart_stage_agent_failure)
next
  fix analysis chart_sql e
  assume "wait_for (bar_chart_agent_run ev (trace st) (bar_chart_context (req_query request) sql))
            (AI_AGENT_TIMEOUT ev) = Inr (Some analysis)
         \<and> ba_chart_possible analysis \<and> ba_modified_sql analysis = Some chart_sql
         \<and> chart_sql \<noteq> []
         \<and> fst (execute_query ev
                  (log (BarChartAgentRun (bar_chart_context (req_query request) sql)) st)
                  (validate_and_fix_query chart_sql)) = Inl e"
  then show "\<exists>b. fst (chart_stage ev st request sql) = Some b \<and> chart_data b = None
                 \<and> chart_data_error b = Some (str_exn e)"
    using chart_stage_sql_failure by blast
next
  fix b
  assume "fst (chart_stage ev st request sql) = Some b"
  then show "\<not> (chart_data b \<noteq> None \<and> chart_data_error b \<noteq> None)"
    by (rule chart_stage_exclusive)
next
  fix sql_res :: sql_result and st1 rows st2 sres
  assume "generate_sql ev st (augmented_query ev (req_query request)) mh = (Inr sql_res, st1)
         \<and> execute_with_retry ev st1 (augmented_query ev (req_query request)) sql_res
             = (Inr (sql, rows), st2)
         \<and> rows \<noteq> []
         \<and> wait_for (summary_agent_run ev (trace st2) (data_context ev (req_query request) rows)
                       (sr_all_messages sql_res)) (AI_AGENT_TIMEOUT ev) = Inr sres"
  then show "\<exists>resp. fst (sql_turn ev st request cid mh start) = Inr resp \<and> success resp
                \<and> data resp = rows
                \<and> bar_chart resp = fst (chart_stage ev
                     (log (SummaryAgentRun (data_context ev (req_query request) rows)
                            (sr_all_messages sql_res)) st2) request sql)"
    using sql_turn_with_data by blast
next
  fix resp b
  assume "fst (handle_chat_query_service ev st request) = Inr resp \<and> bar_chart resp = Some b"
  then show "\<not> (chart_data b \<noteq> None \<and> chart_data_error b \<noteq> None)"
    using service_fields by blast
qed

lemma repair_select_2: "validate_and_fix_query ''SELECT 2'' = ''SELECT 2''"
  by code_simp

lemma limit_select_2: "limited_query 1000 ''SELECT 2'' = ''SELECT 2 LIMIT 1000;''"
  by code_simp

lemma limit_select_1: "limited_query 1000 ''SELECT 1'' = ''SELECT 1 LIMIT 1000;''"
  by code_simp

lemma except_syntax_error:
  "execute_query_except (Error ''syntax error'')
   = HTTPException 500 ''Failed to execute query: syntax error''"
  by code_simp

lemma str_nat_500: "str_nat 500 = ''500''"
  by code_simp

lemmas chart_facts = stage_defs sample_defs chart_env_def repair_select_1 repair_select_2
  limit_select_1 limit_select_2 except_syntax_error str_nat_500

theorem chart_derivation_non_fatal_witness:
  "wait_for (bar_chart_agent_run chart_timeout_env (trace sample_state)
              (bar_chart_context (req_query sample_request) ''SELECT 1''))
     (AI_AGENT_TIMEOUT chart_timeout_env) = Inl TimeoutError
   \<and> fst (chart_stage chart_timeout_env sample_state sample_request ''SELECT 1'') = None
   \<and> wait_for (bar_chart_agent_run chart_env (trace sample_state)
              (bar_chart_context (req_query sample_request) ''SELECT 1''))
     (AI_AGENT_TIMEOUT chart_env)
       = Inr (Some \<lparr>ba_chart_possible = True, ba_modified_sql = Some ''SELECT 2''\<rparr>)
   \<and> fst (execute_query chart_env
            (log (BarChartAgentRun (bar_chart_context (req_query sample_request) ''SELECT 1''))
               sample_state)
            (validate_and_fix_query ''SELECT 2''))
       = Inl (HTTPException 500 ''Failed to execute query: syntax error'')
   \<and> (\<exists>b. fst (chart_stage chart_env sample_state sample_request ''SELECT 1'') = Some b
          \<and> chart_data b = None
          \<and> chart_data_error b
              = Some (str_exn (HTTPException 500 ''Failed to execute query: syntax error''))
          \<and> \<not> (chart_data b \<noteq> None \<and> chart_data_error b \<noteq> None))
   \<and> generate_sql chart_env sample_state (augmented_query chart_env (req_query sample_request)) []
       = (Inr \<lparr>sr_sql_query = ''SELECT 1'', sr_all_messages = []\<rparr>,
          log (SqlAgentRun (augmented_query chart_env (req_query sample_request)) None) sample_state)
   \<and> fst (execute_with_retry chart_env
            (log (SqlAgentRun (augmented_query chart_env (req_query sample_request)) None) sample_state)
            (augmented_query chart_env (req_query sample_request))
            \<lparr>sr_sql_query = ''SELECT 1'', sr_all_messages = []\<rparr>)
       = Inr (''SELECT 1'', [[(''n'', ''1'')]])
   \<and> (\<exists>resp. fst (sql_turn chart_env sample_state sample_request ''c1'' [] 0) = Inr resp
          \<and> success resp \<and> data resp = [[(''n'', ''1'')]])
   \<and> (\<exists>resp b. fst (handle_chat_query_service chart_env sample_state sample_request) = Inr resp
          \<and> bar_chart resp = Some b
          \<and> \<not> (chart_data b \<noteq> None \<and> chart_data_error b \<noteq> None))"
proof -
  let ?aug = "augmented_query chart_env (req_query sample_request)"
  let ?sres = "\<lparr>sr_sql_query = ''SELECT 1'', sr_all_messages = []\<rparr>"
  let ?st1 = "log (SqlAgentRun ?aug None) sample_state"
  let ?x = "execute_with_retry chart_env ?st1 ?aug ?sres"
  let ?rows = "[[(''n'', ''1'')]] :: row list"
  let ?e = "HTTPException 500 ''Failed to execute query: syntax error''"
  let ?an = "\<lparr>ba_chart_possible = True, ba_modified_sql = Some ''SELECT 2''\<rparr>"
  have a: "wait_for (bar_chart_agent_run chart_timeout_env (trace sample_state)
              (bar_chart_context (req_query sample_request) ''SELECT 1''))
     (AI_AGENT_TIMEOUT chart_timeout_env) = Inl TimeoutError"
    by (simp add: chart_timeout_env_def sample_env_def)
  have b: "wait_for (bar_chart_agent_run chart_env (trace sample_state)
              (bar_chart_context (req_query sample_request) ''SELECT 1''))
     (AI_AGENT_TIMEOUT chart_env) = Inr (Some ?an)"
    by (simp add: chart_env_def sample_env_def)
  have c: "fst (execute_query chart_env
            (log (BarChartAgentRun (bar_chart_context (req_query sample_request) ''SELECT 1''))
               sample_state)
            (validate_and_fix_query ''SELECT 2'')) = Inl ?e"
    by (simp add: chart_facts)
  have g: "generate_sql chart_env sample_state ?aug [] = (Inr ?sres, ?st1)"
    by (simp add: generate_sql_def Let_def with_timeout_def chart_env_def sample_env_def)
  have x: "fst ?x = Inr (''SELECT 1'', ?rows)"
    by (simp add: chart_facts)
  then have x': "?x = (Inr (''SELECT 1'', ?rows), snd ?x)"
    by (simp add: prod_eq_iff)
  have s: "wait_for (summary_agent_run chart_env (trace (snd ?x))
             (data_context chart_env (req_query sample_request) ?rows) (sr_all_messages ?sres))
             (AI_AGENT_TIMEOUT chart_env) = Inr \<lparr>su_data = sample_summary, su_all_messages = []\<rparr>"
    by (simp add: chart_env_def sample_env_def)
  have t: "fst (handle_chat_query_service chart_env sample_state sample_request)
     = Inr \<lparr>success = True, chat_id = ''c1'', query = ''how many?'', sql_query = ''SELECT 1'',
          data = [[(''n'', ''1'')]], summary = ''One row.'', insights = [''one''],
          recommendation = None, response_summary = Some ''ok {}'', execution_time_ms = 11,
          record_count = 1,
          bar_chart = Some \<lparr>chart_possible = True, modified_sql = Some ''SELECT 2'',
             chart_data = None,
             chart_data_error = Some ''500: Failed to execute query: syntax error''\<rparr>\<rparr>"
    by (simp add: chart_facts)
  note w1 = chart_derivation_non_fatal [where ev = chart_timeout_env and st = sample_state
      and request = sample_request and sql = "''SELECT 1''"]
  note w2 = chart_derivation_non_fatal [where ev = chart_env and st = sample_state
      and request = sample_request and sql = "''SELECT 1''" and mh = "[]" and cid = "''c1''"
      and start = 0]
  from w1 a have 1: "fst (chart_stage chart_timeout_env sample_state sample_request ''SELECT 1'') = None"
    by blast
  from w2 b c have "\<exists>b. fst (chart_stage chart_env sample_state sample_request ''SELECT 1'') = Some b
          \<and> chart_data b = None \<and> chart_data_error b = Some (str_exn ?e)"
    by simp
  with w2 have 2: "\<exists>b. fst (chart_stage chart_env sample_state sample_request ''SELECT 1'') = Some b
          \<and> chart_data b = None \<and> chart_data_error b = Some (str_exn ?e)
          \<and> \<not> (chart_data b \<noteq> None \<and> chart_data_error b \<noteq> None)"
    by blast
  from w2 g x' s have 3: "\<exists>resp. fst (sql_turn chart_env sample_state sample_request ''c1'' [] 0) = Inr resp
          \<and> success resp \<and> data resp = ?rows"
    by blast
  from w2 t have 4: "\<exists>resp b. fst (handle_chat_query_service chart_env sample_state sample_request)
            = Inr resp \<and> bar_chart resp = Some b
          \<and> \<not> (chart_data b \<noteq> None \<and> chart_data_error b \<noteq> None)"
    by simp
  from a b c g x 1 2 3 4 show ?thesis
    by blast
qed

section \<open>Classification\<close>

lemma classify_stage_sql:
  assumes "wait_for (query_type_agent_run ev (trace st) (req_query request) mh)
             (AI_AGENT_TIMEOUT ev) = Inl e"
    and "\<forall>code detail. e = HTTPException code detail \<longrightarrow> code = 408"
  shows "classify_stage ev st request mh
         = (Inr ''sql'', log (QueryTypeAgentRun (req_query request) mh) st)"
proof (cases "e = TimeoutError")
  case True
  with assms(1) show ?thesis
    by (simp add: classify_stage_def Let_def with_timeout_TimeoutError)
next
  case False
  with assms show ?thesis
    by (cases e) (simp_all add: classify_stage_def Let_def with_timeout_other)
qed

lemma classify_stage_reraise:
  assumes "wait_for (query_type_agent_run ev (trace st) (req_query request) mh)
             (AI_AGENT_TIMEOUT ev) = Inl (HTTPException code detail)"
    and "code \<noteq> 408"
  shows "fst (classify_stage ev st request mh) = Inl (HTTPException code detail)"
  using assms by (simp add: classify_stage_def Let_def with_timeout_other)

text \<open>
  Claim C3, as amended. When the classification call times out, or fails with any
  exception other than an \<open>HTTPException\<close> of a status different from 408, the query type
  is \<open>sql\<close> and the turn goes on along the SQL path. An \<open>HTTPException\<close> of another status
  raised by the classification call is raised again.
\<close>

theorem classification_fallback:
  "(wait_for (query_type_agent_run ev (trace st) (req_query request) mh) (AI_AGENT_TIMEOUT ev) = Inl e
      \<and> (\<forall>code detail. e = HTTPException code detail \<longrightarrow> code = 408)
     \<longrightarrow> fst (classify_stage ev st request mh) = Inr ''sql'')
   \<and> (open_chat ev st_open request = (Inr (cid, mh), st)
      \<and> wait_for (query_type_agent_run ev (trace st) (req_query request) mh) (AI_AGENT_TIMEOUT ev)
          = Inl e
      \<and> (\<forall>code detail. e = HTTPException code detail \<longrightarrow> code = 408)
     \<longrightarrow> chat_try ev st_open request start
         = sql_turn ev (log (QueryTypeAgentRun (req_query request) mh) st) request cid mh start)
   \<and> (wait_for (query_type_agent_run ev (trace st) (req_query request) mh) (AI_AGENT_TIMEOUT ev)
          = Inl (HTTPException code detail) \<and> code \<noteq> 408
     \<longrightarrow> fst (classify_stage ev st request mh) = Inl (HTTPException code detail))"
proof (intro conjI impI)
  assume "wait_for (query_type_agent_run ev (trace st) (req_query request) mh) (AI_AGENT_TIMEOUT ev)
            = Inl e \<and> (\<forall>code detail. e = HTTPException code detail \<longrightarrow> code = 408)"
  then show "fst (classify_stage ev st request mh) = Inr ''sql''"
    by (simp add: classify_stage_sql)
next
  assume "open_chat ev st_open request = (Inr (cid, mh), st)
      \<and> wait_for (query_type_agent_run ev (trace st) (req_query request) mh) (AI_AGENT_TIMEOUT ev)
          = Inl e
      \<and> (\<forall>code detail. e = HTTPException code detail \<longrightarrow> code = 408)"
  then show "chat_try ev st_open request start
         = sql_turn ev (log (QueryTypeAgentRun (req_query request) mh) st) request cid mh start"
    by (simp add: chat_try_def classify_stage_sql)
next
  assume "wait_for (query_type_agent_run ev (trace st) (req_query request) mh) (AI_AGENT_TIMEOUT ev)
          = Inl (HTTPException code detail) \<and> code \<noteq> 408"
  then show "fst (classify_stage ev st request mh) = Inl (HTTPException code detail)"
    by (simp add: classify_stage_reraise)
qed

theorem classification_fallback_witness:
  "wait_for (query_type_agent_run classifier_timeout_env (trace (log CreateNewChat sample_state))
               (req_query sample_request) [])
      (AI_AGENT_TIMEOUT classifier_timeout_env) = Inl TimeoutError
   \<and> fst (classify_stage classifier_timeout_env (log CreateNewChat sample_state) sample_request [])
       = Inr ''sql''
   \<and> open_chat classifier_error_env sample_state sample_request
       = (Inr (''c1'', []), log CreateNewChat sample_state)
   \<and> wait_for (query_type_agent_run classifier_error_env (trace (log CreateNewChat sample_state))
               (req_query sample_request) [])
      (AI_AGENT_TIMEOUT classifier_error_env) = Inl (Error ''model overloaded'')
   \<and> chat_try classifier_error_env sample_state sample_request 0
       = sql_turn classifier_error_env
           (log (QueryTypeAgentRun (req_query sample_request) []) (log CreateNewChat sample_state))
           sample_request ''c1'' [] 0
   \<and> wait_for (query_type_agent_run classifier_http_error_env (trace (log CreateNewChat sample_state))
               (req_query sample_request) [])
      (AI_AGENT_TIMEOUT classifier_http_error_env) = Inl (HTTPException 500 ''classifier down'')
   \<and> (500::nat) \<noteq> 408
   \<and> fst (classify_stage classifier_http_error_env (log CreateNewChat sample_state) sample_request [])
       = Inl (HTTPException 500 ''classifier down'')"
proof -
  have t: "wait_for (query_type_agent_run classifier_timeout_env
              (trace (log CreateNewChat sample_state)) (req_query sample_request) [])
             (AI_AGENT_TIMEOUT classifier_timeout_env) = Inl TimeoutError"
    by (simp add: classifier_timeout_env_def sample_env_def)
  have o: "open_chat classifier_error_env sample_state sample_request
             = (Inr (''c1'', []), log CreateNewChat sample_state)"
    by (simp add: open_chat_def classifier_error_env_def sample_env_def sample_request_def)
  have e: "wait_for (query_type_agent_run classifier_error_env
              (trace (log CreateNewChat sample_state)) (req_query sample_request) [])
             (AI_AGENT_TIMEOUT classifier_error_env) = Inl (Error ''model overloaded'')"
    by (simp add: classifier_error_env_def sample_env_def)
  have h: "wait_for (query_type_agent_run classifier_http_error_env
              (trace (log CreateNewChat sample_state)) (req_query sample_request) [])
             (AI_AGENT_TIMEOUT classifier_http_error_env) = Inl (HTTPException 500 ''classifier down'')"
    by (simp add: classifier_http_error_env_def sample_env_def)
  have n: "(500::nat) \<noteq> 408"
    by simp
  note a = classification_fallback [where ev = classifier_timeout_env
      and st = "log CreateNewChat sample_state" and request = sample_request and mh = "[]"
      and e = TimeoutError]
  note b = classification_fallback [where ev = classifier_error_env
      and st_open = sample_state and st = "log CreateNewChat sample_state"
      and request = sample_request and mh = "[]" and cid = "''c1''"
      and e = "Error ''model overloaded''" and start = 0]
  note c = classification_fallback [where ev = classifier_http_error_env
      and st = "log CreateNewChat sample_state" and request = sample_request and mh = "[]"
      and code = 500 and detail = "''classifier down''"]
  from a t have 1: "fst (classify_stage classifier_timeout_env (log CreateNewChat sample_state)
                      sample_request []) = Inr ''sql''"
    by simp
  from b o e have 2: "chat_try classifier_error_env sample_state sample_request 0
       = sql_turn classifier_error_env
           (log (QueryTypeAgentRun (req_query sample_request) []) (log CreateNewChat sample_state))
           sample_request ''c1'' [] 0"
    by simp
  from c h n have 3: "fst (classify_stage classifier_http_error_env (log CreateNewChat sample_state)
                      sample_request []) = Inl (HTTPException 500 ''classifier down'')"
    by simp
  from t o e h n 1 2 3 show ?thesis
    by blast
qed

text \<open>
  Claim C3 as stated fails: when the classification call raises an \<open>HTTPException\<close> of
  status 500, the turn ends with that exception, and the SQL agent is never run.
\<close>

theorem classification_counterexample:
  "wait_for (query_type_agent_run classifier_http_error_env [CreateNewChat] ''how many?'' [])
      (AI_AGENT_TIMEOUT classifier_http_error_env) = Inl (HTTPException 500 ''classifier down'')
   \<and> handle_chat_query_service classifier_http_error_env sample_state sample_request
       = (Inl (HTTPException 500 ''classifier down''),
          \<lparr>trace = [CreateNewChat, QueryTypeAgentRun ''how many?'' []], open_connections = 0\<rparr>)"
  by (simp add: stage_defs sample_defs classifier_http_error_env_def)

section \<open>The orchestrator boundary\<close>

lemma execute_query_raises_http:
  assumes "fst (execute_query ev st sql) = Inl e"
  shows "\<exists>code detail. e = HTTPException code detail"
  using assms
  by (auto simp: execute_query_def execute_query_except_def Let_def
           split: sum.splits exn.splits if_splits)

lemma service_raises_http:
  assumes "fst (handle_chat_query_service ev st request) = Inl e"
  shows "\<exists>code detail. e = HTTPException code detail"
proof (cases "chat_try ev st request (now ev (trace st))")
  case (Pair r st1)
  with assms show ?thesis
    by (cases r; cases "projl r")
       (auto simp: handle_chat_query_service_def Let_def split: sum.splits exn.splits)
qed

lemma service_converts:
  assumes "chat_try ev st request (now ev (trace st)) = (Inl e, st1)"
    and "\<forall>code detail. e \<noteq> HTTPException code detail"
  shows "\<exists>resp. fst (handle_chat_query_service ev st request) = Inr resp
           \<and> \<not> success resp \<and> data resp = [] \<and> record_count resp = 0 \<and> insights resp = []
           \<and> sql_query resp = [] \<and> bar_chart resp = None
           \<and> summary resp = ''Error: '' @ str_exn e"
  using assms by (cases e) (simp_all add: handle_chat_query_service_def Let_def)

lemma service_reraises:
  assumes "chat_try ev st request (now ev (trace st)) = (Inl (HTTPException code detail), st1)"
  shows "fst (handle_chat_query_service ev st request) = Inl (HTTPException code detail)"
  using assms by (simp add: handle_chat_query_service_def Let_def)

text \<open>
  Claim C6, as amended. The service raises nothing but \<open>HTTPException\<close>. \<open>chat_try\<close> is the
  body of the outer \<open>try\<close>; an exception leaves it when no handler of a stage caught it. An
  exception that leaves the body and is no \<open>HTTPException\<close> becomes a response with
  \<open>success\<close> false, no data, a record count of zero, no insights, an empty \<open>sql_query\<close>, no
  chart and the summary \<open>Error: \<close> followed by the text of the exception. An \<open>HTTPException\<close>
  that leaves the body is raised again to the caller, unchanged. \<open>execute_query\<close> raises
  nothing but \<open>HTTPException\<close>, so a failed execution that leaves the body is raised again
  and not turned into a response.
\<close>

theorem orchestrator_boundary:
  "(\<forall>e. fst (handle_chat_query_service ev st request) = Inl e
        \<longrightarrow> (\<exists>code detail. e = HTTPException code detail))
   \<and> (\<forall>e st_end. chat_try ev st request (now ev (trace st)) = (Inl e, st_end)
          \<and> (\<forall>code detail. e \<noteq> HTTPException code detail)
        \<longrightarrow> (\<exists>resp. fst (handle_chat_query_service ev st request) = Inr resp
               \<and> \<not> success resp \<and> data resp = [] \<and> record_count resp = 0
               \<and> insights resp = [] \<and> sql_query resp = [] \<and> bar_chart resp = None
               \<and> summary resp = ''Error: '' @ str_exn e))
   \<and> (\<forall>code detail st_end.
          chat_try ev st request (now ev (trace st)) = (Inl (HTTPException code detail), st_end)
        \<longrightarrow> fst (handle_chat_query_service ev st request) = Inl (HTTPException code detail))
   \<and> (\<forall>e. fst (execute_query ev st sql) = Inl e
        \<longrightarrow> (\<exists>code detail. e = HTTPException code detail))"
proof (intro conjI allI impI)
  fix e
  assume "fst (handle_chat_query_service ev st request) = Inl e"
  then show "\<exists>code detail. e = HTTPException code detail"
    by (rule service_raises_http)
next
  fix e st_end
  assume "chat_try ev st request (now ev (trace st)) = (Inl e, st_end)
          \<and> (\<forall>code detail. e \<noteq> HTTPException code detail)"
  then show "\<exists>resp. fst (handle_chat_query_service ev st request) = Inr resp
               \<and> \<not> success resp \<and> data resp = [] \<and> record_count resp = 0
               \<and> insights resp = [] \<and> sql_query resp = [] \<and> bar_chart resp = None
               \<and> summary resp = ''Error: '' @ str_exn e"
    using service_converts [of ev st request e st_end] by simp
next
  fix code detail st_end
  assume "chat_try ev st request (now ev (trace st)) = (Inl (HTTPException code detail), st_end)"
  then show "fst (handle_chat_query_service ev st request) = Inl (HTTPException code detail)"
    by (rule service_reraises)
next
  fix e
  assume "fst (execute_query ev st sql) = Inl e"
  then show "\<exists>code detail. e = HTTPException code detail"
    by (rule execute_query_raises_http)
qed

lemma sql_agent_error_try:
  "chat_try sql_agent_error_env sample_state sample_request
     (now sql_agent_error_env (trace sample_state))
   = (Inl (Error ''agent failed''),
      \<lparr>trace = [CreateNewChat, QueryTypeAgentRun ''how many?'' [],
                SqlAgentRun (augmented_query sql_agent_error_env ''how many?'') None],
       open_connections = 0\<rparr>)"
  by (simp add: stage_defs sample_defs sql_agent_error_env_def)

lemma db_error_try:
  "chat_try db_error_env sample_state sample_request (now db_error_env (trace sample_state))
   = (Inl (HTTPException 500 ''Failed to execute query: syntax error''),
      \<lparr>trace = [CreateNewChat, QueryTypeAgentRun ''how many?'' [],
                SqlAgentRun (augmented_query db_error_env ''how many?'') None,
                Connect, Fetch ''SELECT 1 LIMIT 1000;'', Close],
       open_connections = 0\<rparr>)"
  by (simp add: stage_defs sample_defs db_error_env_def repair_select_1 limit_select_1
        except_syntax_error)

lemma db_error_execute:
  "fst (execute_query db_error_env sample_state ''SELECT 1'')
   = Inl (HTTPException 500 ''Failed to execute query: syntax error'')"
  by (simp add: stage_defs sample_defs db_error_env_def except_syntax_error)

theorem orchestrator_boundary_witness:
  "chat_try sql_agent_error_env sample_state sample_request
     (now sql_agent_error_env (trace sample_state))
     = (Inl (Error ''agent failed''),
        \<lparr>trace = [CreateNewChat, QueryTypeAgentRun ''how many?'' [],
                  SqlAgentRun (augmented_query sql_agent_error_env ''how many?'') None],
         open_connections = 0\<rparr>)
   \<and> (\<exists>resp. fst (handle_chat_query_service sql_agent_error_env sample_state sample_request)
                 = Inr resp
          \<and> \<not> success resp \<and> data resp = [] \<and> record_count resp = 0 \<and> insights resp = []
          \<and> sql_query resp = [] \<and> bar_chart resp = None
          \<and> summary resp = ''Error: '' @ str_exn (Error ''agent failed''))
   \<and> chat_try db_error_env sample_state sample_request (now db_error_env (trace sample_state))
     = (Inl (HTTPException 500 ''Failed to execute query: syntax error''),
        \<lparr>trace = [CreateNewChat, QueryTypeAgentRun ''how many?'' [],
                  SqlAgentRun (augmented_query db_error_env ''how many?'') None,
                  Connect, Fetch ''SELECT 1 LIMIT 1000;'', Close],
         open_connections = 0\<rparr>)
   \<and> fst (handle_chat_query_service db_error_env sample_state sample_request)
     = Inl (HTTPException 500 ''Failed to execute query: syntax error'')
   \<and> fst (execute_query db_error_env sample_state ''SELECT 1'')
     = Inl (HTTPException 500 ''Failed to execute query: syntax error'')
   \<and> (\<exists>code detail. HTTPException 500 ''Failed to execute query: syntax error''
                      = HTTPException code detail)"
proof -
  note a = orchestrator_boundary [where ev = sql_agent_error_env and st = sample_state
      and request = sample_request]
  note b = orchestrator_boundary [where ev = db_error_env and st = sample_state
      and request = sample_request and sql = "''SELECT 1''"]
  from a sql_agent_error_try
  have 1: "\<exists>resp. fst (handle_chat_query_service sql_agent_error_env sample_state sample_request)
                 = Inr resp
          \<and> \<not> success resp \<and> data resp = [] \<and> record_count resp = 0 \<and> insights resp = []
          \<and> sql_query resp = [] \<and> bar_chart resp = None
          \<and> summary resp = ''Error: '' @ str_exn (Error ''agent failed'')"
    by blast
  from b db_error_try
  have 2: "fst (handle_chat_query_service db_error_env sample_state sample_request)
             = Inl (HTTPException 500 ''Failed to execute query: syntax error'')"
    by blast
  from b db_error_execute
  have 3: "\<exists>code detail. HTTPException 500 ''Failed to execute query: syntax error''
                      = HTTPException code detail"
    by blast
  from sql_agent_error_try db_error_try db_error_execute 1 2 3 show ?thesis
    by blast
qed

text \<open>
  Claim C6 as stated fails: the database refuses the first statement with an error that
  names no column; \<open>execute_query\<close> wraps it as an \<open>HTTPException\<close> of status 500, which
  the service raises to its caller instead of answering with a response.
\<close>

theorem orchestrator_boundary_counterexample:
  "conn_fetch db_error_env [CreateNewChat, QueryTypeAgentRun ''how many?'' [],
                SqlAgentRun (augmented_query db_error_env ''how many?'') None, Connect]
       ''SELECT 1 LIMIT 1000;'' = Coro 1 (Inl (Error ''syntax error''))
   \<and> handle_chat_query_service db_error_env sample_state sample_request
     = (Inl (HTTPException 500 ''Failed to execute query: syntax error''),
        \<lparr>trace = [CreateNewChat, QueryTypeAgentRun ''how many?'' [],
                  SqlAgentRun (augmented_query db_error_env ''how many?'') None,
                  Connect, Fetch ''SELECT 1 LIMIT 1000;'', Close],
         open_connections = 0\<rparr>)"
  by (simp add: stage_defs sample_defs db_error_env_def repair_select_1 limit_select_1
        except_syntax_error)

text \<open>
  Claim C4 against the code. The main query returns one row and the summary agent never
  answers. The fallback summary is put in place, but line 194 then reads
  \<open>bar_chart_response\<close>, which this path never assigned: the turn ends in the failure
  response, with \<open>success\<close> false and without the retrieved row.
\<close>

theorem summary_timeout_fails_turn:
  "summary_agent_run summary_timeout_env
       [CreateNewChat, QueryTypeAgentRun ''how many?'' [],
        SqlAgentRun (augmented_query summary_timeout_env ''how many?'') None,
        Connect, Fetch ''SELECT 1 LIMIT 1000;'', Close]
       (data_context summary_timeout_env ''how many?'' [[(''n'', ''1'')]]) [] = Never
   \<and> fst (execute_query summary_timeout_env
            \<lparr>trace = [CreateNewChat, QueryTypeAgentRun ''how many?'' [],
                      SqlAgentRun (augmented_query summary_timeout_env ''how many?'') None],
             open_connections = 0\<rparr> ''SELECT 1'') = Inr [[(''n'', ''1'')]]
   \<and> fst (handle_chat_query_service summary_timeout_env sample_state sample_request)
     = Inr \<lparr>success = False, chat_id = ''unknown'', query = ''how many?'', sql_query = [],
            data = [], summary = ''Error: '' @ str_exn (UnboundLocalError ''bar_chart_response''),
            insights = [], recommendation = None, response_summary = None,
            execution_time_ms = 7, record_count = 0, bar_chart = None\<rparr>"
  by (simp add: stage_defs sample_defs summary_timeout_env_def repair_select_1 limit_select_1)

text \<open>
  Claim C5 against the code. The main query returns no row. The fixed summary is built and
  the lighter summary call is made, but line 194 then reads \<open>bar_chart_response\<close>, which
  the branch without data never assigns: the turn ends in the failure response, with
  \<open>success\<close> false and the error text as its summary.
\<close>

theorem no_rows_fails_turn:
  "fst (execute_query no_rows_env
            \<lparr>trace = [CreateNewChat, QueryTypeAgentRun ''how many?'' [],
                      SqlAgentRun (augmented_query no_rows_env ''how many?'') None],
             open_connections = 0\<rparr> ''SELECT 1'') = Inr []
   \<and> fst (handle_chat_query_service no_rows_env sample_state sample_request)
     = Inr \<lparr>success = False, chat_id = ''unknown'', query = ''how many?'', sql_query = [],
            data = [], summary = ''Error: '' @ str_exn (UnboundLocalError ''bar_chart_response''),
            insights = [], recommendation = None, response_summary = None,
            execution_time_ms = 7, record_count = 0, bar_chart = None\<rparr>"
  by (simp add: stage_defs sample_defs no_rows_env_def repair_select_1 limit_select_1)

section \<open>The retry on a stale computed column\<close>

lemma execute_query_trace:
  "trace (snd (execute_query ev st sql))
   = trace st @ (case get_transactions_db_connection ev (trace st) of
                   Inl e \<Rightarrow> []
                 | Inr c \<Rightarrow> [Connect, Fetch (limited_query (MAX_QUERY_RESULTS ev) sql), Close])"
  by (simp add: execute_query_def log_def Let_def split: sum.splits)

lemma detail_mentions_computed_column: "contains computed_col_detail ''computed column''"
  by code_simp

lemma execute_query_stale:
  assumes "get_transactions_db_connection ev (trace st) = Inr c"
    and "wait_for (conn_fetch ev (trace st @ [Connect]) (limited_query (MAX_QUERY_RESULTS ev) sql))
           (DATABASE_TIMEOUT ev) = Inl (Error msg)"
    and "contains (lower msg) ''column''" and "contains (lower msg) ''does not exist''"
    and "contains (lower msg) ''final_status'' \<or> contains (lower msg) ''success_rate''
         \<or> contains (lower msg) ''count''"
  shows "fst (execute_query ev st sql) = Inl (HTTPException 400 computed_col_detail)"
proof -
  from assms(2) have "with_timeout (conn_fetch ev (trace st @ [Connect])
        (limited_query (MAX_QUERY_RESULTS ev) sql)) (DATABASE_TIMEOUT ev)
        ''Database query execution'' = Inl (Error msg)"
    by (simp add: with_timeout_other)
  with assms(1,3-) show ?thesis
    by (auto simp: execute_query_def execute_query_except_def log_def Let_def)
qed

text \<open>
  Claim C2. Let the first execution fail with the stale computed column condition: the
  connection is had and the database raises, in time, an error whose lower-cased message
  contains \<open>column\<close>, \<open>does not exist\<close> and one of \<open>final_status\<close>, \<open>success_rate\<close>, \<open>count\<close>.
  Then the stage runs the SQL agent exactly once more, on the same augmented prompt and
  without conversation history; it sends at most two statements to the database; when
  the agent answers, the result is that of executing the repaired fresh query; and a
  failure of this second execution, of whatever kind, is the failure of the stage: there
  is no further attempt.
\<close>

theorem stale_column_retry:
  assumes conn: "get_transactions_db_connection ev (trace st) = Inr c"
    and fetch: "wait_for (conn_fetch ev (trace st @ [Connect])
                   (limited_query (MAX_QUERY_RESULTS ev)
                      (validate_and_fix_query (sr_sql_query sql_res))))
                  (DATABASE_TIMEOUT ev) = Inl (Error msg)"
    and col: "contains (lower msg) ''column''"
    and dne: "contains (lower msg) ''does not exist''"
    and name: "contains (lower msg) ''final_status'' \<or> contains (lower msg) ''success_rate''
               \<or> contains (lower msg) ''count''"
  shows "filter is_sql_agent_run
           (events_since st (snd (execute_with_retry ev st augmented sql_res)))
         = [SqlAgentRun augmented None]
     \<and> length (filter is_fetch
           (events_since st (snd (execute_with_retry ev st augmented sql_res)))) \<le> 2
     \<and> (\<forall>fresh.
           wait_for (sql_agent_run ev
                       (trace (snd (execute_query ev st
                                      (validate_and_fix_query (sr_sql_query sql_res)))))
                       augmented None) (AI_AGENT_TIMEOUT ev) = Inr fresh
           \<longrightarrow> execute_with_retry ev st augmented sql_res
               = (case execute_query ev
                         (log (SqlAgentRun augmented None)
                            (snd (execute_query ev st
                                    (validate_and_fix_query (sr_sql_query sql_res)))))
                         (validate_and_fix_query (sr_sql_query fresh)) of
                    (Inl e, st_end) \<Rightarrow> (Inl e, st_end)
                  | (Inr rows, st_end) \<Rightarrow>
                      (Inr (validate_and_fix_query (sr_sql_query fresh), rows), st_end)))
     \<and> (\<forall>fresh e.
           wait_for (sql_agent_run ev
                       (trace (snd (execute_query ev st
                                      (validate_and_fix_query (sr_sql_query sql_res)))))
                       augmented None) (AI_AGENT_TIMEOUT ev) = Inr fresh
           \<and> fst (execute_query ev
                     (log (SqlAgentRun augmented None)
                        (snd (execute_query ev st
                                (validate_and_fix_query (sr_sql_query sql_res)))))
                     (validate_and_fix_query (sr_sql_query fresh))) = Inl e
           \<longrightarrow> fst (execute_with_retry ev st augmented sql_res) = Inl e)"
proof -
  let ?q = "validate_and_fix_query (sr_sql_query sql_res)"
  obtain st1 where stale: "execute_query ev st ?q = (Inl (HTTPException 400 computed_col_detail), st1)"
    using execute_query_stale [OF conn fetch col dne name]
    by (cases "execute_query ev st ?q") auto
  let ?st2 = "log (SqlAgentRun augmented None) st1"
  let ?gen = "with_timeout (sql_agent_run ev (trace st1) augmented None) (AI_AGENT_TIMEOUT ev)
                ''Fresh SQL generation''"
  have tr1: "trace st1 = trace st @ [Connect, Fetch (limited_query (MAX_QUERY_RESULTS ev) ?q), Close]"
    using execute_query_trace [of ev st ?q] by (simp add: stale conn)
  have unfold: "execute_with_retry ev st augmented sql_res
      = (case ?gen of
           Inl e \<Rightarrow> (Inl e, ?st2)
         | Inr fresh \<Rightarrow>
             (case execute_query ev ?st2 (validate_and_fix_query (sr_sql_query fresh)) of
                (Inl e, st_end) \<Rightarrow> (Inl e, st_end)
              | (Inr rows, st_end) \<Rightarrow>
                  (Inr (validate_and_fix_query (sr_sql_query fresh), rows), st_end)))"
    using detail_mentions_computed_column
    by (simp add: execute_with_retry_def Let_def stale split: sum.splits)
  have tr2: "trace ?st2 = trace st @ [Connect, Fetch (limited_query (MAX_QUERY_RESULTS ev) ?q), Close,
                                     SqlAgentRun augmented None]"
    by (simp add: log_def tr1)
  have agent: "filter is_sql_agent_run
                 (events_since st (snd (execute_with_retry ev st augmented sql_res)))
               = [SqlAgentRun augmented None]"
  proof (cases ?gen)
    case (Inl e)
    with unfold tr2 show ?thesis
      by (simp add: events_since_def)
  next
    case (Inr fresh)
    let ?second = "execute_query ev ?st2 (validate_and_fix_query (sr_sql_query fresh))"
    from unfold Inr have "snd (execute_with_retry ev st augmented sql_res) = snd ?second"
      by (simp split: prod.splits sum.splits)
    then show ?thesis
      by (simp add: events_since_def execute_query_trace tr2 split: sum.splits)
  qed
  have fetches: "length (filter is_fetch
                   (events_since st (snd (execute_with_retry ev st augmented sql_res)))) \<le> 2"
  proof (cases ?gen)
    case (Inl e)
    with unfold tr2 show ?thesis
      by (simp add: events_since_def)
  next
    case (Inr fresh)
    let ?second = "execute_query ev ?st2 (validate_and_fix_query (sr_sql_query fresh))"
    from unfold Inr have "snd (execute_with_retry ev st augmented sql_res) = snd ?second"
      by (simp split: prod.splits sum.splits)
    then show ?thesis
      by (simp add: events_since_def execute_query_trace tr2 split: sum.splits)
  qed
  have again: "execute_with_retry ev st augmented sql_res
               = (case execute_query ev ?st2 (validate_and_fix_query (sr_sql_query fresh)) of
                    (Inl e, st_end) \<Rightarrow> (Inl e, st_end)
                  | (Inr rows, st_end) \<Rightarrow>
                      (Inr (validate_and_fix_query (sr_sql_query fresh), rows), st_end))"
    if "wait_for (sql_agent_run ev (trace st1) augmented None) (AI_AGENT_TIMEOUT ev) = Inr fresh"
    for fresh
    using unfold with_timeout_ok [OF that, of "''Fresh SQL generation''"] by simp
  have propagate: "fst (execute_with_retry ev st augmented sql_res) = Inl e"
    if "wait_for (sql_agent_run ev (trace st1) augmented None) (AI_AGENT_TIMEOUT ev) = Inr fresh"
      and "fst (execute_query ev ?st2 (validate_and_fix_query (sr_sql_query fresh))) = Inl e"
    for fresh e
    using again [OF that(1)] that(2) by (simp split: prod.splits)
  from agent fetches again propagate show ?thesis
    by (simp add: stale)
qed

lemma except_missing_column:
  "execute_query_except (Error missing_column_message) = HTTPException 400 computed_col_detail"
  by code_simp

lemma stale_turn:
  "handle_chat_query_service stale_column_env sample_state sample_request
   = (Inl (HTTPException 400 computed_col_detail),
      \<lparr>trace = [CreateNewChat, QueryTypeAgentRun ''how many?'' [],
                SqlAgentRun (augmented_query stale_column_env ''how many?'') None,
                Connect, Fetch ''SELECT 1 LIMIT 1000;'', Close,
                SqlAgentRun (augmented_query stale_column_env ''how many?'') None,
                Connect, Fetch ''SELECT 1 LIMIT 1000;'', Close],
       open_connections = 0\<rparr>)"
  using detail_mentions_computed_column
  by (simp add: stage_defs sample_defs stale_column_env_def repair_select_1 limit_select_1
        except_missing_column)

theorem stale_column_retry_witness:
  "get_transactions_db_connection stale_column_env (trace sample_state) = Inr ()
   \<and> wait_for (conn_fetch stale_column_env (trace sample_state @ [Connect])
                 (limited_query (MAX_QUERY_RESULTS stale_column_env)
                    (validate_and_fix_query
                       (sr_sql_query \<lparr>sr_sql_query = ''SELECT 1'', sr_all_messages = []\<rparr>))))
        (DATABASE_TIMEOUT stale_column_env) = Inl (Error missing_column_message)
   \<and> contains (lower missing_column_message) ''column''
   \<and> contains (lower missing_column_message) ''does not exist''
   \<and> contains (lower missing_column_message) ''final_status''
   \<and> filter is_sql_agent_run
        (events_since sample_state
           (snd (execute_with_retry stale_column_env sample_state ''prompt''
                   \<lparr>sr_sql_query = ''SELECT 1'', sr_all_messages = []\<rparr>)))
       = [SqlAgentRun ''prompt'' None]
   \<and> length (filter is_fetch
        (events_since sample_state
           (snd (execute_with_retry stale_column_env sample_state ''prompt''
                   \<lparr>sr_sql_query = ''SELECT 1'', sr_all_messages = []\<rparr>)))) \<le> 2
   \<and> fst (execute_with_retry stale_column_env sample_state ''prompt''
            \<lparr>sr_sql_query = ''SELECT 1'', sr_all_messages = []\<rparr>)
       = Inl (HTTPException 400 computed_col_detail)
   \<and> handle_chat_query_service stale_column_env sample_state sample_request
       = (Inl (HTTPException 400 computed_col_detail),
          \<lparr>trace = [CreateNewChat, QueryTypeAgentRun ''how many?'' [],
                    SqlAgentRun (augmented_query stale_column_env ''how many?'') None,
                    Connect, Fetch ''SELECT 1 LIMIT 1000;'', Close,
                    SqlAgentRun (augmented_query stale_column_env ''how many?'') None,
                    Connect, Fetch ''SELECT 1 LIMIT 1000;'', Close],
           open_connections = 0\<rparr>)"
proof -
  let ?res = "\<lparr>sr_sql_query = ''SELECT 1'', sr_all_messages = []\<rparr>"
  let ?first = "execute_query stale_column_env sample_state
                  (validate_and_fix_query (sr_sql_query ?res))"
  have c: "get_transactions_db_connection stale_column_env (trace sample_state) = Inr ()"
    by (simp add: stale_column_env_def sample_env_def)
  have f: "wait_for (conn_fetch stale_column_env (trace sample_state @ [Connect])
                 (limited_query (MAX_QUERY_RESULTS stale_column_env)
                    (validate_and_fix_query (sr_sql_query ?res))))
        (DATABASE_TIMEOUT stale_column_env) = Inl (Error missing_column_message)"
    by (simp add: stale_column_env_def sample_env_def)
  have m: "contains (lower missing_column_message) ''column''"
    "contains (lower missing_column_message) ''does not exist''"
    "contains (lower missing_column_message) ''final_status''"
    by code_simp+
  have g: "wait_for (sql_agent_run stale_column_env (trace (snd ?first)) ''prompt'' None)
             (AI_AGENT_TIMEOUT stale_column_env) = Inr ?res"
    by (simp add: stale_column_env_def sample_env_def)
  have s: "fst (execute_query stale_column_env (log (SqlAgentRun ''prompt'' None) (snd ?first))
                  (validate_and_fix_query (sr_sql_query ?res)))
           = Inl (HTTPException 400 computed_col_detail)"
    by (simp add: execute_query_def with_timeout_def log_def Let_def stale_column_env_def
          sample_env_def except_missing_column)
  note w = stale_column_retry [OF c f m(1) m(2) disjI1 [OF m(3)], of "''prompt''"]
  from w g s have "fst (execute_with_retry stale_column_env sample_state ''prompt'' ?res)
                   = Inl (HTTPException 400 computed_col_detail)"
    by blast
  with w c f m stale_turn show ?thesis
    by blast
qed

section \<open>The repair engine\<close>

subsection \<open>Texts without the repaired identifiers\<close>

lemma lower_chr_bits [code]:
  "lower_chr (Char b0 b1 b2 b3 b4 b5 b6 b7)
   = (if \<not> b7 \<and> b6 \<and> \<not> b5 \<and> (b0 \<or> b1 \<or> b2 \<or> b3 \<or> b4) \<and> \<not> (b4 \<and> b3 \<and> (b2 \<or> b1 \<and> b0))
      then Char b0 b1 b2 b3 b4 True b6 b7 else Char b0 b1 b2 b3 b4 b5 b6 b7)"
  by (cases b0; cases b1; cases b2; cases b3; cases b4; cases b5; cases b6; cases b7)
     (simp_all add: lower_chr_def upper_letters_def lower_letters_def)















subsection \<open>A weight that every replacement increases\<close>

text \<open>
  \<open>mu\<close> counts the characters of a text that are a colon, a backslash, an opening
  parenthesis or the letter \<open>a\<close> in either case. For each of the nine fixes the text that a
  match consumes outside its groups weighs less than the literal text of the replacement,
  and every group of the pattern is copied into the replacement: a replacement makes the
  text strictly heavier. So the repair returns its argument exactly when no pattern matches.
\<close>

lemma mu_Nil [simp]: "mu [] = 0"
  by (simp add: mu_def)


lemma mu_append [simp]: "mu (u @ v) = mu u + mu v"
  by (simp add: mu_def)



lemma caps_Nil [simp]: "caps [] = 0"
  by (simp add: caps_def)

lemma caps_Cons [simp]: "caps (e # g) = mu (snd e) + caps g"
  by (simp add: caps_def)

lemma caps_append [simp]: "caps (g @ h) = caps g + caps h"
  by (simp add: caps_def)



lemma step_same [simp]: "step st st u new \<longleftrightarrow> u = [] \<and> new = []"
  by (auto simp: step_def)






















subsection \<open>Fixed points of the repair\<close>












end
